theory Spec2Isabelle
  imports Complex_Main "HOL-Library.Multiset"
begin

section \<open>Arrays\<close>

text \<open>
  The programs compute on numpy arrays of double-precision floats.  The arithmetic is
  idealised to the real numbers: rounding, overflow, infinities and nan are not modelled.
  Every array that occurs is 0-dimensional (one number, as \<^verbatim>\<open>np.empty([])\<close> gives)
  or 2-dimensional; a 2-dimensional array is the list of its rows.  An array with no
  rows carries no column count in this representation.
\<close>

datatype error = ValueError | ZeroDivisionError | TypeError | AttributeError | IndexError

type_synonym mat = "real list list"

datatype ndarray = Arr0 real | Arr2 mat

datatype shape = Sh0 | Sh2 nat nat

definition nrows :: "mat \<Rightarrow> nat" where
  "nrows A = length A"

definition ncols :: "mat \<Rightarrow> nat" where
  "ncols A = (case A of [] \<Rightarrow> 0 | r # _ \<Rightarrow> length r)"

text \<open>\<^verbatim>\<open>X.shape\<close>\<close>

fun shape_of :: "ndarray \<Rightarrow> shape" where
  "shape_of (Arr0 a) = Sh0"
| "shape_of (Arr2 A) = Sh2 (nrows A) (ncols A)"

definition scale :: "real \<Rightarrow> mat \<Rightarrow> mat" where
  "scale c A = map (map (\<lambda>x. c * x)) A"

definition col :: "mat \<Rightarrow> nat \<Rightarrow> real list" where
  "col A j = map (\<lambda>r. r ! j) A"

text \<open>\<^verbatim>\<open>A.T\<close>\<close>

definition transpose_mat :: "mat \<Rightarrow> mat" where
  "transpose_mat A = map (col A) [0..<ncols A]"

fun T :: "ndarray \<Rightarrow> ndarray" where
  "T (Arr0 a) = Arr0 a"
| "T (Arr2 A) = Arr2 (transpose_mat A)"

definition inner_prod :: "real list \<Rightarrow> real list \<Rightarrow> real" where
  "inner_prod u v = sum_list (map2 (*) u v)"

definition matmul :: "mat \<Rightarrow> mat \<Rightarrow> mat" where
  "matmul A B = map (\<lambda>r. map (\<lambda>j. inner_prod r (col B j)) [0..<ncols B]) A"

text \<open>
  \<^verbatim>\<open>a.dot(b)\<close>: with a 0-dimensional operand it is the scalar multiple; two matrices
  are multiplied when every row of the first is as long as the second has rows, and
  numpy raises ValueError otherwise.
\<close>

fun dot :: "ndarray \<Rightarrow> ndarray \<Rightarrow> error + ndarray" where
  "dot (Arr0 a) (Arr0 b) = Inr (Arr0 (a * b))"
| "dot (Arr0 a) (Arr2 B) = Inr (Arr2 (scale a B))"
| "dot (Arr2 A) (Arr0 b) = Inr (Arr2 (scale b A))"
| "dot (Arr2 A) (Arr2 B) =
     (if list_all (\<lambda>r. length r = nrows B) A then Inr (Arr2 (matmul A B)) else Inl ValueError)"

text \<open>
  Broadcasting of an elementwise binary operation: along each axis the two lengths are
  equal or one of them is 1, and the operand of length 1 is repeated.
\<close>

definition bdim :: "nat \<Rightarrow> nat \<Rightarrow> nat option" where
  "bdim m k = (if m = k then Some m else if m = 1 then Some k else if k = 1 then Some m else None)"

definition bget :: "mat \<Rightarrow> nat \<Rightarrow> nat \<Rightarrow> real" where
  "bget A i j = A ! (if nrows A = 1 then 0 else i) ! (if ncols A = 1 then 0 else j)"

definition broadcast2 :: "(real \<Rightarrow> real \<Rightarrow> real) \<Rightarrow> mat \<Rightarrow> mat \<Rightarrow> error + mat" where
  "broadcast2 f A B =
     (case bdim (nrows A) (nrows B) of
        None \<Rightarrow> Inl ValueError
      | Some m \<Rightarrow>
          (case bdim (ncols A) (ncols B) of
             None \<Rightarrow> Inl ValueError
           | Some n \<Rightarrow> Inr (map (\<lambda>i. map (\<lambda>j. f (bget A i j) (bget B i j)) [0..<n]) [0..<m])))"

fun elementwise :: "(real \<Rightarrow> real \<Rightarrow> real) \<Rightarrow> ndarray \<Rightarrow> ndarray \<Rightarrow> error + ndarray" where
  "elementwise f (Arr0 a) (Arr0 b) = Inr (Arr0 (f a b))"
| "elementwise f (Arr0 a) (Arr2 B) = Inr (Arr2 (map (map (\<lambda>x. f a x)) B))"
| "elementwise f (Arr2 A) (Arr0 b) = Inr (Arr2 (map (map (\<lambda>x. f x b)) A))"
| "elementwise f (Arr2 A) (Arr2 B) =
     (case broadcast2 f A B of Inl e \<Rightarrow> Inl e | Inr C \<Rightarrow> Inr (Arr2 C))"

text \<open>\<^verbatim>\<open>a + b\<close>, \<^verbatim>\<open>a - b\<close> and \<^verbatim>\<open>a * b\<close> on arrays\<close>

definition add :: "ndarray \<Rightarrow> ndarray \<Rightarrow> error + ndarray" where
  "add = elementwise (+)"

definition sub :: "ndarray \<Rightarrow> ndarray \<Rightarrow> error + ndarray" where
  "sub = elementwise (-)"

definition mul :: "ndarray \<Rightarrow> ndarray \<Rightarrow> error + ndarray" where
  "mul = elementwise (*)"

text \<open>\<^verbatim>\<open>X * c\<close> for a Python float \<open>c\<close>\<close>

fun mul_scalar :: "ndarray \<Rightarrow> real \<Rightarrow> ndarray" where
  "mul_scalar (Arr0 a) c = Arr0 (a * c)"
| "mul_scalar (Arr2 A) c = Arr2 (map (map (\<lambda>x. x * c)) A)"

text \<open>\<^verbatim>\<open>X > c\<close>: the boolean array, True read as 1 and False as 0 (as \<^verbatim>\<open>X * mask\<close> reads it)\<close>

fun greater_scalar :: "ndarray \<Rightarrow> real \<Rightarrow> ndarray" where
  "greater_scalar (Arr0 a) c = Arr0 (if a > c then 1 else 0)"
| "greater_scalar (Arr2 A) c = Arr2 (map (map (\<lambda>x. if x > c then 1 else 0)) A)"

text \<open>
  \<^verbatim>\<open>np.sum(a, axis=0, keepdims=True)\<close>; a 0-dimensional array has no axis 0 (numpy's
  AxisError is a ValueError)
\<close>

fun sum_axis0 :: "ndarray \<Rightarrow> error + ndarray" where
  "sum_axis0 (Arr0 a) = Inl ValueError"
| "sum_axis0 (Arr2 A) = Inr (Arr2 [map (\<lambda>j. sum_list (col A j)) [0..<ncols A]])"

text \<open>\<^verbatim>\<open>np.mean(a)\<close>; the mean of no element (nan in numpy) is not modelled\<close>

fun mean :: "ndarray \<Rightarrow> real" where
  "mean (Arr0 a) = a"
| "mean (Arr2 A) = sum_list (concat A) / real (length (concat A))"

text \<open>\<^verbatim>\<open>a.any()\<close>: some element is not zero\<close>

fun any :: "ndarray \<Rightarrow> bool" where
  "any (Arr0 a) = (a \<noteq> 0)"
| "any (Arr2 A) = list_ex (\<lambda>x. x \<noteq> 0) (concat A)"

text \<open>\<^verbatim>\<open>X[idx]\<close> for an index array: the rows at those positions, IndexError out of range\<close>

definition index_rows :: "'a list \<Rightarrow> nat list \<Rightarrow> error + 'a list" where
  "index_rows X idx =
     (if list_all (\<lambda>i. i < length X) idx then Inr (map (\<lambda>i. X ! i) idx) else Inl IndexError)"

section \<open>External strategies\<close>

text \<open>
  Activation functions, optimizers, loss functions and the random number generator are
  imported from modules outside the files verified here.  They are parameters of the
  model; each may raise.  An optimizer object carries its own state (momentum, moving
  averages), which \<^verbatim>\<open>update\<close> changes.
\<close>

record activation_function =
  act_function :: "ndarray \<Rightarrow> error + ndarray"
  act_gradient :: "ndarray \<Rightarrow> error + ndarray"

record 'o optimizer_obj =
  opt_state :: 'o
  opt_update :: "'o \<Rightarrow> ndarray \<Rightarrow> ndarray \<Rightarrow> error + (ndarray \<times> 'o)"

record loss_function =
  loss_loss :: "ndarray \<Rightarrow> ndarray \<Rightarrow> error + ndarray"
  loss_gradient :: "ndarray \<Rightarrow> ndarray \<Rightarrow> error + ndarray"

text \<open>
  The global numpy generator, with state \<open>'g\<close>: \<^verbatim>\<open>np.random.uniform(size=s)\<close>, and the
  permutation of \<open>0..n-1\<close> that \<^verbatim>\<open>shuffle_data\<close> draws.  \<^verbatim>\<open>categorical_to_binary\<close>
  turns a label vector into the matrix of one-hot rows.
\<close>

record 'g env =
  random_uniform :: "'g \<Rightarrow> shape \<Rightarrow> ndarray \<times> 'g"
  random_permutation :: "'g \<Rightarrow> nat \<Rightarrow> nat list \<times> 'g"
  categorical_to_binary :: "int list \<Rightarrow> error + mat"

text \<open>\<^verbatim>\<open>opt.update(w, grad)\<close>: the new parameter value and the optimizer with its new state\<close>

definition update :: "'o optimizer_obj \<Rightarrow> ndarray \<Rightarrow> ndarray \<Rightarrow> error + (ndarray \<times> 'o optimizer_obj)" where
  "update opt w g =
     (case opt_update opt (opt_state opt) w g of
        Inl e \<Rightarrow> Inl e
      | Inr (w', s') \<Rightarrow> Inr (w', opt\<lparr>opt_state := s'\<rparr>))"

section \<open>Layers\<close>

text \<open>
  \<^verbatim>\<open>class DenseLayer\<close>.  \<open>W\<close>, \<open>wb\<close> and the cached \<open>layer_input\<close> are None until set;
  the attributes \<open>W_opt\<close> and \<open>wb_opt\<close> exist only after \<^verbatim>\<open>initialize\<close>.
\<close>

record 'o DenseLayer =
  activation :: activation_function
  layer_input :: "ndarray option"
  initialized :: bool
  n_inputs :: int
  n_units :: int
  W :: "ndarray option"
  wb :: "ndarray option"
  W_opt :: "'o optimizer_obj option"
  wb_opt :: "'o optimizer_obj option"

text \<open>\<^verbatim>\<open>DenseLayer.__init__\<close>\<close>

definition DenseLayer_init :: "int \<Rightarrow> int \<Rightarrow> activation_function \<Rightarrow> 'o DenseLayer" where
  "DenseLayer_init n_in n_un act =
     \<lparr>activation = act, layer_input = None, initialized = False, n_inputs = n_in,
      n_units = n_un, W = None, wb = None, W_opt = None, wb_opt = None\<rparr>"

text \<open>
  \<^verbatim>\<open>layer_input.dot(self.W) + self.wb\<close>, as both passes compute it.  A parameter that is
  still None makes numpy raise TypeError.
\<close>

definition pre_activation :: "'o DenseLayer \<Rightarrow> ndarray \<Rightarrow> error + ndarray" where
  "pre_activation L X =
     (case W L of
        None \<Rightarrow> Inl TypeError
      | Some w \<Rightarrow>
          (case dot X w of
             Inl e \<Rightarrow> Inl e
           | Inr z \<Rightarrow> (case wb L of None \<Rightarrow> Inl TypeError | Some b \<Rightarrow> add z b)))"

text \<open>\<^verbatim>\<open>DenseLayer.forward_pass\<close>: the output and the layer with its input cached\<close>

definition dense_forward_pass :: "'o DenseLayer \<Rightarrow> ndarray \<Rightarrow> bool \<Rightarrow> error + (ndarray \<times> 'o DenseLayer)" where
  "dense_forward_pass L X training =
     (let L1 = L\<lparr>layer_input := Some X\<rparr> in
      case pre_activation L1 X of
        Inl e \<Rightarrow> Inl e
      | Inr z \<Rightarrow>
          (case act_function (activation L1) z of
             Inl e \<Rightarrow> Inl e
           | Inr out \<Rightarrow> Inr (out, L1)))"

text \<open>
  The first half of \<^verbatim>\<open>DenseLayer.backward_pass\<close>: \<open>layer_grad\<close>, \<open>grad_w\<close> and \<open>grad_wb\<close>.
  Without a cached input, \<^verbatim>\<open>None.dot\<close> raises AttributeError.
\<close>

definition dense_gradients :: "'o DenseLayer \<Rightarrow> ndarray \<Rightarrow> error + (ndarray \<times> ndarray \<times> ndarray)" where
  "dense_gradients L acc_grad =
     (case layer_input L of
        None \<Rightarrow> Inl AttributeError
      | Some X \<Rightarrow>
          (case pre_activation L X of
             Inl e \<Rightarrow> Inl e
           | Inr z \<Rightarrow>
               (case act_gradient (activation L) z of
                  Inl e \<Rightarrow> Inl e
                | Inr a \<Rightarrow>
                    (case mul acc_grad a of
                       Inl e \<Rightarrow> Inl e
                     | Inr layer_grad \<Rightarrow>
                         (case dot (T X) layer_grad of
                            Inl e \<Rightarrow> Inl e
                          | Inr grad_w \<Rightarrow>
                              (case sum_axis0 layer_grad of
                                 Inl e \<Rightarrow> Inl e
                               | Inr grad_wb \<Rightarrow> Inr (layer_grad, grad_w, grad_wb)))))))"

text \<open>
  The second half: both parameters are replaced by what their optimizers return, and
  then the gradient for the previous layer is computed from \<^verbatim>\<open>self.W\<close>.
\<close>

definition dense_update :: "'o DenseLayer \<Rightarrow> ndarray \<Rightarrow> ndarray \<Rightarrow> error + 'o DenseLayer" where
  "dense_update L grad_w grad_wb =
     (case (W L, W_opt L) of
        (Some w, Some wo) \<Rightarrow>
          (case update wo w grad_w of
             Inl e \<Rightarrow> Inl e
           | Inr (w', wo') \<Rightarrow>
               (case (wb L, wb_opt L) of
                  (Some b, Some bo) \<Rightarrow>
                    (case update bo b grad_wb of
                       Inl e \<Rightarrow> Inl e
                     | Inr (b', bo') \<Rightarrow>
                         Inr (L\<lparr>W := Some w', W_opt := Some wo', wb := Some b', wb_opt := Some bo'\<rparr>))
                | (Some b, None) \<Rightarrow> Inl AttributeError
                | (None, _) \<Rightarrow> Inl AttributeError))
      | (Some w, None) \<Rightarrow> Inl AttributeError
      | (None, _) \<Rightarrow> Inl AttributeError)"

definition dense_backward_pass :: "'o DenseLayer \<Rightarrow> ndarray \<Rightarrow> error + (ndarray \<times> 'o DenseLayer)" where
  "dense_backward_pass L acc_grad =
     (case dense_gradients L acc_grad of
        Inl e \<Rightarrow> Inl e
      | Inr (layer_grad, grad_w, grad_wb) \<Rightarrow>
          (case dense_update L grad_w grad_wb of
             Inl e \<Rightarrow> Inl e
           | Inr L' \<Rightarrow>
               (case W L' of
                  None \<Rightarrow> Inl AttributeError
                | Some w' \<Rightarrow>
                    (case dot layer_grad (T w') of
                       Inl e \<Rightarrow> Inl e
                     | Inr g \<Rightarrow> Inr (g, L')))))"

text \<open>\<^verbatim>\<open>class DropoutLayer\<close>: the fields \<open>p\<close> and \<open>_mask\<close>\<close>

record DropoutLayer =
  drop_p :: real
  drop_mask :: "ndarray option"

text \<open>\<^verbatim>\<open>DropoutLayer.__init__\<close> raises nothing.\<close>

definition DropoutLayer_init :: "real \<Rightarrow> error + DropoutLayer" where
  "DropoutLayer_init q = Inr \<lparr>drop_p = q, drop_mask = None\<rparr>"

text \<open>\<^verbatim>\<open>DropoutLayer.forward_pass\<close>, with the generator's state passed through\<close>

definition dropout_forward_pass ::
  "'g env \<Rightarrow> DropoutLayer \<Rightarrow> ndarray \<Rightarrow> bool \<Rightarrow> 'g \<Rightarrow> error + (ndarray \<times> DropoutLayer \<times> 'g)" where
  "dropout_forward_pass E L X training g =
     (if training then
        (let (u, g') = random_uniform E g (shape_of X);
             m = greater_scalar u (drop_p L)
         in case mul X m of
              Inl e \<Rightarrow> Inl e
            | Inr out \<Rightarrow> Inr (out, L\<lparr>drop_mask := Some m\<rparr>, g'))
      else Inr (mul_scalar X (1 - drop_p L), L, g))"

text \<open>\<^verbatim>\<open>DropoutLayer.backward_pass\<close>: multiplying by a mask that is None raises TypeError\<close>

definition dropout_backward_pass :: "DropoutLayer \<Rightarrow> ndarray \<Rightarrow> error + ndarray" where
  "dropout_backward_pass L acc_grad =
     (case drop_mask L of None \<Rightarrow> Inl TypeError | Some m \<Rightarrow> mul acc_grad m)"

section \<open>The network\<close>

datatype 'o layer = Dense "'o DenseLayer" | Dropout DropoutLayer

text \<open>\<^verbatim>\<open>layer.forward_pass(layer_output, training)\<close>, dispatched on the layer's class\<close>

definition layer_forward_pass ::
  "'g env \<Rightarrow> 'o layer \<Rightarrow> ndarray \<Rightarrow> bool \<Rightarrow> 'g \<Rightarrow> error + (ndarray \<times> 'o layer \<times> 'g)" where
  "layer_forward_pass E l X training g =
     (case l of
        Dense L \<Rightarrow>
          (case dense_forward_pass L X training of
             Inl e \<Rightarrow> Inl e
           | Inr (out, L') \<Rightarrow> Inr (out, Dense L', g))
      | Dropout L \<Rightarrow>
          (case dropout_forward_pass E L X training g of
             Inl e \<Rightarrow> Inl e
           | Inr (out, L', g') \<Rightarrow> Inr (out, Dropout L', g')))"

text \<open>\<^verbatim>\<open>layer.backward_pass(acc_grad)\<close>\<close>

definition layer_backward_pass :: "'o layer \<Rightarrow> ndarray \<Rightarrow> error + (ndarray \<times> 'o layer)" where
  "layer_backward_pass l acc_grad =
     (case l of
        Dense L \<Rightarrow>
          (case dense_backward_pass L acc_grad of
             Inl e \<Rightarrow> Inl e
           | Inr (g, L') \<Rightarrow> Inr (g, Dense L'))
      | Dropout L \<Rightarrow>
          (case dropout_backward_pass L acc_grad of
             Inl e \<Rightarrow> Inl e
           | Inr g \<Rightarrow> Inr (g, Dropout L)))"

text \<open>The loop of \<^verbatim>\<open>_forward_pass\<close>: each layer's output is the next layer's input.\<close>

fun forward_layers ::
  "'g env \<Rightarrow> 'o layer list \<Rightarrow> ndarray \<Rightarrow> bool \<Rightarrow> 'g \<Rightarrow> error + (ndarray \<times> 'o layer list \<times> 'g)" where
  "forward_layers E [] X training g = Inr (X, [], g)"
| "forward_layers E (l # ls) X training g =
     (case layer_forward_pass E l X training g of
        Inl e \<Rightarrow> Inl e
      | Inr (out, l', g') \<Rightarrow>
          (case forward_layers E ls out training g' of
             Inl e \<Rightarrow> Inl e
           | Inr (y, ls', g'') \<Rightarrow> Inr (y, l' # ls', g'')))"

text \<open>
  The loop of \<^verbatim>\<open>_backward_pass\<close> over a list given in the order of the visit
  (\<^verbatim>\<open>reversed(self.layers)\<close>); the last gradient is dropped.
\<close>

fun backward_layers :: "'o layer list \<Rightarrow> ndarray \<Rightarrow> error + 'o layer list" where
  "backward_layers [] acc_grad = Inr []"
| "backward_layers (l # ls) acc_grad =
     (case layer_backward_pass l acc_grad of
        Inl e \<Rightarrow> Inl e
      | Inr (g, l') \<Rightarrow>
          (case backward_layers ls g of
             Inl e \<Rightarrow> Inl e
           | Inr ls' \<Rightarrow> Inr (l' # ls')))"

text \<open>
  \<^verbatim>\<open>class MultilayerPerceptron\<close>.  The dictionary \<open>errors\<close> has the two keys
  \<^verbatim>\<open>"training"\<close> and \<^verbatim>\<open>"validation"\<close>, here two fields.  The layers of a network are
  distinct objects: no layer is added twice.
\<close>

record 'o MultilayerPerceptron =
  n_iterations :: int
  optimizer :: "'o optimizer_obj"
  layers :: "'o layer list"
  errors_training :: "real list"
  errors_validation :: "real list"
  cross_ent :: loss_function
  batch_size :: int
  X_val :: ndarray
  y_val :: ndarray

text \<open>
  \<^verbatim>\<open>MultilayerPerceptron.__init__\<close>.  \<^verbatim>\<open>np.empty([])\<close> is a 0-dimensional array whose one
  element is not initialised: \<open>u\<close> is the number found there.  Validation data, when
  given, is the pair of inputs and labels.
\<close>

definition MultilayerPerceptron_init ::
  "'g env \<Rightarrow> int \<Rightarrow> int \<Rightarrow> 'o optimizer_obj \<Rightarrow> loss_function \<Rightarrow> (mat \<times> int list) option \<Rightarrow> real
     \<Rightarrow> error + 'o MultilayerPerceptron" where
  "MultilayerPerceptron_init E n_iter b_size opt loss validation_data u =
     (let N = \<lparr>n_iterations = n_iter, optimizer = opt, layers = [], errors_training = [],
                errors_validation = [], cross_ent = loss, batch_size = b_size,
                X_val = Arr0 u, y_val = Arr0 u\<rparr>
      in case validation_data of
           None \<Rightarrow> Inr N
         | Some (Xv, yv) \<Rightarrow>
             (case categorical_to_binary E yv of
                Inl e \<Rightarrow> Inl e
              | Inr yb \<Rightarrow> Inr (N\<lparr>X_val := Arr2 Xv, y_val := Arr2 yb\<rparr>)))"

text \<open>\<^verbatim>\<open>_forward_pass\<close> and \<^verbatim>\<open>_backward_pass\<close>\<close>

definition mlp_forward_pass ::
  "'g env \<Rightarrow> 'o MultilayerPerceptron \<Rightarrow> ndarray \<Rightarrow> bool \<Rightarrow> 'g
     \<Rightarrow> error + (ndarray \<times> 'o MultilayerPerceptron \<times> 'g)" where
  "mlp_forward_pass E N X training g =
     (case forward_layers E (layers N) X training g of
        Inl e \<Rightarrow> Inl e
      | Inr (out, ls, g') \<Rightarrow> Inr (out, N\<lparr>layers := ls\<rparr>, g'))"

definition mlp_backward_pass :: "'o MultilayerPerceptron \<Rightarrow> ndarray \<Rightarrow> error + 'o MultilayerPerceptron" where
  "mlp_backward_pass N loss_grad =
     (case backward_layers (rev (layers N)) loss_grad of
        Inl e \<Rightarrow> Inl e
      | Inr ls \<Rightarrow> Inr (N\<lparr>layers := rev ls\<rparr>))"

text \<open>
  \<^verbatim>\<open>np.argmax(output, axis=1)\<close>: per row the first position of the largest value.  A
  0-dimensional array has no axis 1, and a row with no element has no maximum.
\<close>

fun argmax_from :: "real list \<Rightarrow> nat \<Rightarrow> nat \<Rightarrow> real \<Rightarrow> nat" where
  "argmax_from [] i best m = best"
| "argmax_from (x # xs) i best m =
     (if x > m then argmax_from xs (Suc i) i x else argmax_from xs (Suc i) best m)"

fun argmax_row :: "real list \<Rightarrow> nat" where
  "argmax_row [] = 0"
| "argmax_row (x # xs) = argmax_from xs 1 0 x"

fun argmax_axis1 :: "ndarray \<Rightarrow> error + nat list" where
  "argmax_axis1 (Arr0 a) = Inl ValueError"
| "argmax_axis1 (Arr2 A) =
     (if list_ex (\<lambda>r. r = []) A then Inl ValueError else Inr (map argmax_row A))"

text \<open>\<^verbatim>\<open>MultilayerPerceptron.predict\<close>\<close>

definition predict ::
  "'g env \<Rightarrow> 'o MultilayerPerceptron \<Rightarrow> ndarray \<Rightarrow> 'g
     \<Rightarrow> error + (nat list \<times> 'o MultilayerPerceptron \<times> 'g)" where
  "predict E N X g =
     (case mlp_forward_pass E N X False g of
        Inl e \<Rightarrow> Inl e
      | Inr (out, N', g') \<Rightarrow>
          (case argmax_axis1 out of
             Inl e \<Rightarrow> Inl e
           | Inr labels \<Rightarrow> Inr (labels, N', g')))"

section \<open>Training\<close>

text \<open>
  \<^verbatim>\<open>int(n_samples / self.batch_size)\<close>: the quotient truncated towards zero.  (Under
  Python 2 the division is the floor division; the two agree for a positive batch size,
  and both give a non-positive count for a negative one.)
\<close>

definition n_batches_of :: "nat \<Rightarrow> int \<Rightarrow> error + int" where
  "n_batches_of n_samples b_size =
     (if b_size = 0 then Inl ZeroDivisionError
      else if 0 < b_size then Inr (int n_samples div b_size)
      else Inr (- (int n_samples div (- b_size))))"

text \<open>
  \<^verbatim>\<open>np.array_split(ary, k)\<close> for an integer \<open>k\<close>, as numpy defines it: ValueError unless
  \<open>0 < k\<close>; otherwise \<open>len(ary) mod k\<close> sections of \<open>len(ary) div k + 1\<close> elements followed
  by sections of \<open>len(ary) div k\<close> elements, cut in order.
\<close>

fun split_sizes :: "'a list \<Rightarrow> nat list \<Rightarrow> 'a list list" where
  "split_sizes xs [] = []"
| "split_sizes xs (s # ss) = take s xs # split_sizes (drop s xs) ss"

definition section_sizes :: "nat \<Rightarrow> nat \<Rightarrow> nat list" where
  "section_sizes n k = replicate (n mod k) (n div k + 1) @ replicate (k - n mod k) (n div k)"

definition array_split :: "'a list \<Rightarrow> int \<Rightarrow> error + 'a list list" where
  "array_split xs k =
     (if k \<le> 0 then Inl ValueError
      else Inr (split_sizes xs (section_sizes (length xs) (nat k))))"

text \<open>
  Modelled from the spec: \<^verbatim>\<open>shuffle_data\<close> of \<^verbatim>\<open>mlfromscratch.utils.data_manipulation\<close>
  is not among the files.  It "shuffles (X, y) jointly (same permutation applied to
  both)": it draws one permutation of the row positions and indexes both arrays by it.
\<close>

definition shuffle_data :: "'g env \<Rightarrow> 'g \<Rightarrow> mat \<Rightarrow> mat \<Rightarrow> error + ((mat \<times> mat) \<times> 'g)" where
  "shuffle_data E g X y =
     (let (perm, g') = random_permutation E g (nrows X) in
      case index_rows X perm of
        Inl e \<Rightarrow> Inl e
      | Inr X' \<Rightarrow>
          (case index_rows y perm of
             Inl e \<Rightarrow> Inl e
           | Inr y' \<Rightarrow> Inr ((X', y'), g')))"

text \<open>
  The body of the batch loop of \<^verbatim>\<open>fit\<close> once \<open>X_batch\<close> and \<open>y_batch\<close> are cut out: forward
  pass, loss, loss gradient, backward pass.
\<close>

definition train_on_batch ::
  "'g env \<Rightarrow> 'o MultilayerPerceptron \<Rightarrow> mat \<Rightarrow> mat \<Rightarrow> 'g
     \<Rightarrow> error + ('o MultilayerPerceptron \<times> real \<times> 'g)" where
  "train_on_batch E N X_batch y_batch g =
     (case mlp_forward_pass E N (Arr2 X_batch) True g of
        Inl e \<Rightarrow> Inl e
      | Inr (y_pred, N1, g1) \<Rightarrow>
          (case loss_loss (cross_ent N1) (Arr2 y_batch) y_pred of
             Inl e \<Rightarrow> Inl e
           | Inr l \<Rightarrow>
               (case loss_gradient (cross_ent N1) (Arr2 y_batch) y_pred of
                  Inl e \<Rightarrow> Inl e
                | Inr loss_grad \<Rightarrow>
                    (case mlp_backward_pass N1 loss_grad of
                       Inl e \<Rightarrow> Inl e
                     | Inr N2 \<Rightarrow> Inr (N2, mean l, g1)))))"

text \<open>One batch of \<^verbatim>\<open>fit\<close>: \<^verbatim>\<open>X_batch, y_batch = X_[idx], y_[idx]\<close>, then the body.\<close>

definition train_batch ::
  "'g env \<Rightarrow> 'o MultilayerPerceptron \<Rightarrow> mat \<Rightarrow> mat \<Rightarrow> nat list \<Rightarrow> 'g
     \<Rightarrow> error + ('o MultilayerPerceptron \<times> real \<times> 'g)" where
  "train_batch E N X' y' idx g =
     (case index_rows X' idx of
        Inl e \<Rightarrow> Inl e
      | Inr X_batch \<Rightarrow>
          (case index_rows y' idx of
             Inl e \<Rightarrow> Inl e
           | Inr y_batch \<Rightarrow> train_on_batch E N X_batch y_batch g))"

text \<open>The loop over the batches of one epoch, summing the batch losses.\<close>

fun train_batches ::
  "'g env \<Rightarrow> 'o MultilayerPerceptron \<Rightarrow> mat \<Rightarrow> mat \<Rightarrow> nat list list \<Rightarrow> real \<Rightarrow> 'g
     \<Rightarrow> error + ('o MultilayerPerceptron \<times> real \<times> 'g)" where
  "train_batches E N X' y' [] batch_t_error g = Inr (N, batch_t_error, g)"
| "train_batches E N X' y' (idx # rest) batch_t_error g =
     (case train_batch E N X' y' idx g of
        Inl e \<Rightarrow> Inl e
      | Inr (N1, l, g1) \<Rightarrow> train_batches E N1 X' y' rest (batch_t_error + l) g1)"

text \<open>
  The end of an epoch, lines 162 to 166: the validation error, when \<^verbatim>\<open>self.X_val.any()\<close>.
  The call \<^verbatim>\<open>self._forward_pass(self.X_val)\<close> leaves \<open>training\<close> at its default, True.
\<close>

definition validation_step ::
  "'g env \<Rightarrow> 'o MultilayerPerceptron \<Rightarrow> 'g \<Rightarrow> error + ('o MultilayerPerceptron \<times> 'g)" where
  "validation_step E N g =
     (if any (X_val N) then
        (case mlp_forward_pass E N (X_val N) True g of
           Inl e \<Rightarrow> Inl e
         | Inr (y_val_p, N1, g1) \<Rightarrow>
             (case loss_loss (cross_ent N1) (y_val N1) y_val_p of
                Inl e \<Rightarrow> Inl e
              | Inr l \<Rightarrow> Inr (N1\<lparr>errors_validation := errors_validation N1 @ [mean l]\<rparr>, g1)))
      else Inr (N, g))"

text \<open>One epoch: the body of the loop over \<^verbatim>\<open>range(self.n_iterations)\<close>.\<close>

definition fit_epoch ::
  "'g env \<Rightarrow> 'o MultilayerPerceptron \<Rightarrow> mat \<Rightarrow> mat \<Rightarrow> int \<Rightarrow> 'g
     \<Rightarrow> error + ('o MultilayerPerceptron \<times> 'g)" where
  "fit_epoch E N X y n_batches g =
     (case shuffle_data E g X y of
        Inl e \<Rightarrow> Inl e
      | Inr ((X', y'), g1) \<Rightarrow>
          (case array_split [0..<nrows X] n_batches of
             Inl e \<Rightarrow> Inl e
           | Inr splits \<Rightarrow>
               (case train_batches E N X' y' splits 0 g1 of
                  Inl e \<Rightarrow> Inl e
                | Inr (N1, batch_t_error, g2) \<Rightarrow>
                    validation_step E
                      (N1\<lparr>errors_training :=
                            errors_training N1 @ [batch_t_error / real_of_int n_batches]\<rparr>) g2)))"

fun fit_epochs ::
  "'g env \<Rightarrow> nat \<Rightarrow> 'o MultilayerPerceptron \<Rightarrow> mat \<Rightarrow> mat \<Rightarrow> int \<Rightarrow> 'g
     \<Rightarrow> error + ('o MultilayerPerceptron \<times> 'g)" where
  "fit_epochs E 0 N X y n_batches g = Inr (N, g)"
| "fit_epochs E (Suc k) N X y n_batches g =
     (case fit_epoch E N X y n_batches g of
        Inl e \<Rightarrow> Inl e
      | Inr (N1, g1) \<Rightarrow> fit_epochs E k N1 X y n_batches g1)"

text \<open>
  \<^verbatim>\<open>MultilayerPerceptron.fit\<close>: \<open>X\<close> is a matrix (\<^verbatim>\<open>np.shape(X)\<close> is unpacked into two
  numbers), \<open>y\<close> the vector of integer labels.
\<close>

definition fit ::
  "'g env \<Rightarrow> 'o MultilayerPerceptron \<Rightarrow> mat \<Rightarrow> int list \<Rightarrow> 'g
     \<Rightarrow> error + ('o MultilayerPerceptron \<times> 'g)" where
  "fit E N X y g =
     (case categorical_to_binary E y of
        Inl e \<Rightarrow> Inl e
      | Inr yb \<Rightarrow>
          (case n_batches_of (nrows X) (batch_size N) of
             Inl e \<Rightarrow> Inl e
           | Inr n_batches \<Rightarrow> fit_epochs E (nat (n_iterations N)) N X yb n_batches g))"

text \<open>
  The batch loop over batches given as data, each a pair of sample rows and label rows:
  what an epoch does when its batches are known.
\<close>

fun train_on_batches ::
  "'g env \<Rightarrow> 'o MultilayerPerceptron \<Rightarrow> (mat \<times> mat) list \<Rightarrow> real \<Rightarrow> 'g
     \<Rightarrow> error + ('o MultilayerPerceptron \<times> real \<times> 'g)" where
  "train_on_batches E N [] batch_t_error g = Inr (N, batch_t_error, g)"
| "train_on_batches E N ((X_batch, y_batch) # rest) batch_t_error g =
     (case train_on_batch E N X_batch y_batch g of
        Inl e \<Rightarrow> Inl e
      | Inr (N1, l, g1) \<Rightarrow> train_on_batches E N1 rest (batch_t_error + l) g1)"

section \<open>Gradient boosting\<close>

text \<open>
  \<^verbatim>\<open>RegressionTree\<close> is imported from a module outside the files verified here: its
  constructor, \<^verbatim>\<open>fit\<close> and \<^verbatim>\<open>predict\<close> are parameters, trees being values of type \<open>'t\<close>.
\<close>

record 't tree_ops =
  new_tree :: "int \<Rightarrow> real \<Rightarrow> int \<Rightarrow> 't"
  tree_fit :: "'t \<Rightarrow> mat \<Rightarrow> real list \<Rightarrow> error + 't"
  tree_predict :: "'t \<Rightarrow> mat \<Rightarrow> error + real list"

record 't GradientBoostingRegressor =
  n_estimators :: int
  learning_rate :: real
  max_features :: "int option"
  min_samples_split :: int
  min_var_red :: real
  max_depth :: int
  debug :: bool
  trees :: "'t list"

text \<open>\<^verbatim>\<open>GradientBoostingRegressor.__init__\<close>: one tree per element of \<^verbatim>\<open>range(n_estimators)\<close>\<close>

definition GradientBoostingRegressor_init ::
  "'t tree_ops \<Rightarrow> int \<Rightarrow> real \<Rightarrow> int option \<Rightarrow> int \<Rightarrow> real \<Rightarrow> int \<Rightarrow> bool
     \<Rightarrow> 't GradientBoostingRegressor" where
  "GradientBoostingRegressor_init R n_est lr max_feat min_split var_red depth dbg =
     \<lparr>n_estimators = n_est, learning_rate = lr, max_features = max_feat,
      min_samples_split = min_split, min_var_red = var_red, max_depth = depth, debug = dbg,
      trees = replicate (nat n_est) (new_tree R min_split var_red depth)\<rparr>"

text \<open>
  Vectors are 1-dimensional arrays.  \<^verbatim>\<open>a - b\<close> broadcasts a vector of length 1;
  \<^verbatim>\<open>a -= b\<close> writes into \<open>a\<close>, so only \<open>b\<close> may be the shorter one.
\<close>

definition vec_sub :: "real list \<Rightarrow> real list \<Rightarrow> error + real list" where
  "vec_sub a b =
     (if length a = length b then Inr (map2 (-) a b)
      else if length a = 1 then Inr (map (\<lambda>x. hd a - x) b)
      else if length b = 1 then Inr (map (\<lambda>x. x - hd b) a)
      else Inl ValueError)"

definition vec_isub :: "real list \<Rightarrow> real list \<Rightarrow> error + real list" where
  "vec_isub a b =
     (if length b = length a then Inr (map2 (-) a b)
      else if length b = 1 then Inr (map (\<lambda>x. x - hd b) a)
      else Inl ValueError)"

text \<open>
  The loop of \<^verbatim>\<open>GradientBoostingRegressor.fit\<close>, returning the fitted trees and the
  last running prediction.
\<close>

fun fit_trees ::
  "'t tree_ops \<Rightarrow> real \<Rightarrow> 't list \<Rightarrow> mat \<Rightarrow> real list \<Rightarrow> real list
     \<Rightarrow> error + ('t list \<times> real list)" where
  "fit_trees R lr [] X y y_pred = Inr ([], y_pred)"
| "fit_trees R lr (t # ts) X y y_pred =
     (case vec_sub y y_pred of
        Inl e \<Rightarrow> Inl e
      | Inr d \<Rightarrow>
          (case tree_fit R t X (map uminus d) of
             Inl e \<Rightarrow> Inl e
           | Inr t' \<Rightarrow>
               (case tree_predict R t' X of
                  Inl e \<Rightarrow> Inl e
                | Inr residual_pred \<Rightarrow>
                    (case vec_isub y_pred (map (\<lambda>x. lr * x) residual_pred) of
                       Inl e \<Rightarrow> Inl e
                     | Inr y_pred' \<Rightarrow>
                         (case fit_trees R lr ts X y y_pred' of
                            Inl e \<Rightarrow> Inl e
                          | Inr (ts', yp) \<Rightarrow> Inr (t' # ts', yp))))))"

definition GradientBoostingRegressor_fit ::
  "'t tree_ops \<Rightarrow> 't GradientBoostingRegressor \<Rightarrow> mat \<Rightarrow> real list
     \<Rightarrow> error + 't GradientBoostingRegressor" where
  "GradientBoostingRegressor_fit R G X y =
     (case fit_trees R (learning_rate G) (trees G) X y (replicate (length y) 0) of
        Inl e \<Rightarrow> Inl e
      | Inr (ts, yp) \<Rightarrow> Inr (G\<lparr>trees := ts\<rparr>))"

text \<open>The loop of \<^verbatim>\<open>GradientBoostingRegressor.predict\<close>\<close>

fun predict_trees ::
  "'t tree_ops \<Rightarrow> real \<Rightarrow> 't list \<Rightarrow> mat \<Rightarrow> real list \<Rightarrow> error + real list" where
  "predict_trees R lr [] X y_pred = Inr y_pred"
| "predict_trees R lr (t # ts) X y_pred =
     (case tree_predict R t X of
        Inl e \<Rightarrow> Inl e
      | Inr r \<Rightarrow>
          (case vec_isub y_pred (map (\<lambda>x. lr * x) r) of
             Inl e \<Rightarrow> Inl e
           | Inr y_pred' \<Rightarrow> predict_trees R lr ts X y_pred'))"

definition GradientBoostingRegressor_predict ::
  "'t tree_ops \<Rightarrow> 't GradientBoostingRegressor \<Rightarrow> mat \<Rightarrow> error + real list" where
  "GradientBoostingRegressor_predict R G X =
     predict_trees R (learning_rate G) (trees G) X (replicate (nrows X) 0)"

text \<open>
  The fitting loop in the words of the specification: the residuals are "prediction
  - target", a tree is fitted to them, and "learning_rate * tree_prediction" is
  subtracted from the running prediction.
\<close>

fun fit_trees_spec ::
  "'t tree_ops \<Rightarrow> real \<Rightarrow> 't list \<Rightarrow> mat \<Rightarrow> real list \<Rightarrow> real list
     \<Rightarrow> error + ('t list \<times> real list)" where
  "fit_trees_spec R lr [] X y y_pred = Inr ([], y_pred)"
| "fit_trees_spec R lr (t # ts) X y y_pred =
     (case vec_sub y_pred y of
        Inl e \<Rightarrow> Inl e
      | Inr residuals \<Rightarrow>
          (case tree_fit R t X residuals of
             Inl e \<Rightarrow> Inl e
           | Inr t' \<Rightarrow>
               (case tree_predict R t' X of
                  Inl e \<Rightarrow> Inl e
                | Inr tree_prediction \<Rightarrow>
                    (case vec_isub y_pred (map (\<lambda>x. lr * x) tree_prediction) of
                       Inl e \<Rightarrow> Inl e
                     | Inr y_pred' \<Rightarrow>
                         (case fit_trees_spec R lr ts X y y_pred' of
                            Inl e \<Rightarrow> Inl e
                          | Inr (ts', yp) \<Rightarrow> Inr (t' # ts', yp))))))"

definition GradientBoostingRegressor_fit_spec ::
  "'t tree_ops \<Rightarrow> 't GradientBoostingRegressor \<Rightarrow> mat \<Rightarrow> real list
     \<Rightarrow> error + 't GradientBoostingRegressor" where
  "GradientBoostingRegressor_fit_spec R G X y =
     (case fit_trees_spec R (learning_rate G) (trees G) X y (replicate (length y) 0) of
        Inl e \<Rightarrow> Inl e
      | Inr (ts, yp) \<Rightarrow> Inr (G\<lparr>trees := ts\<rparr>))"

text \<open>
  Prediction in the words of the specification, "predict repeats the same accumulation
  without fitting": from the all-zero prediction, tree after tree, "learning_rate *
  tree_prediction" is subtracted from the running prediction; an error ends it.
\<close>

definition predict_step ::
  "'t tree_ops \<Rightarrow> real \<Rightarrow> mat \<Rightarrow> error + real list \<Rightarrow> 't \<Rightarrow> error + real list" where
  "predict_step R lr X running t =
     (case running of
        Inl e \<Rightarrow> Inl e
      | Inr y_pred \<Rightarrow>
          (case tree_predict R t X of
             Inl e \<Rightarrow> Inl e
           | Inr tree_prediction \<Rightarrow> vec_isub y_pred (map (\<lambda>x. lr * x) tree_prediction)))"

definition GradientBoostingRegressor_predict_spec ::
  "'t tree_ops \<Rightarrow> 't GradientBoostingRegressor \<Rightarrow> mat \<Rightarrow> error + real list" where
  "GradientBoostingRegressor_predict_spec R G X =
     foldl (predict_step R (learning_rate G) X) (Inr (replicate (nrows X) 0)) (trees G)"

section \<open>Sample strategies\<close>

text \<open>
  Instances of the external strategies, at which the model is evaluated on concrete
  inputs: the identity activation, a plain gradient step \<open>w - lr * grad\<close>, the square
  loss \<open>(y - p)\<^sup>2 / 2\<close> with gradient \<open>- (y - p)\<close>, one-hot rows for the labels 0 and 1, a
  generator that counts its draws, returns \<open>1/2\<close> for every uniform draw and the
  reversed order as its permutation, and a tree that predicts the mean of the targets
  it was fitted to.
\<close>

definition identity_activation :: activation_function where
  "identity_activation =
     \<lparr>act_function = (\<lambda>z. Inr z),
      act_gradient = (\<lambda>z. Inr (case z of Arr0 a \<Rightarrow> Arr0 1 | Arr2 A \<Rightarrow> Arr2 (map (map (\<lambda>x. 1)) A)))\<rparr>"

definition gradient_step :: "real \<Rightarrow> unit optimizer_obj" where
  "gradient_step lr =
     \<lparr>opt_state = (),
      opt_update = (\<lambda>s w g. case sub w (mul_scalar g lr) of Inl e \<Rightarrow> Inl e | Inr w' \<Rightarrow> Inr (w', s))\<rparr>"

definition square_loss :: loss_function where
  "square_loss =
     \<lparr>loss_loss = (\<lambda>y q. case sub y q of
                            Inl e \<Rightarrow> Inl e
                          | Inr d \<Rightarrow> (case mul d d of Inl e \<Rightarrow> Inl e | Inr d2 \<Rightarrow> Inr (mul_scalar d2 (1/2)))),
      loss_gradient = (\<lambda>y q. case sub y q of Inl e \<Rightarrow> Inl e | Inr d \<Rightarrow> Inr (mul_scalar d (- 1)))\<rparr>"

definition one_hot2 :: "int list \<Rightarrow> error + mat" where
  "one_hot2 ys =
     (if ys = [] then Inl ValueError
      else Inr (map (\<lambda>y. [if y = 0 then 1 else 0, if y = 1 then 1 else 0]) ys))"

definition constant_uniform :: "shape \<Rightarrow> ndarray" where
  "constant_uniform s = (case s of Sh0 \<Rightarrow> Arr0 (1/2) | Sh2 m n \<Rightarrow> Arr2 (replicate m (replicate n (1/2))))"

definition sample_env :: "nat env" where
  "sample_env =
     \<lparr>random_uniform = (\<lambda>g s. (constant_uniform s, Suc g)),
      random_permutation = (\<lambda>g n. (rev [0..<n], Suc g)),
      categorical_to_binary = one_hot2\<rparr>"

definition mean_tree :: "real tree_ops" where
  "mean_tree =
     \<lparr>new_tree = (\<lambda>min_split var_red depth. 0),
      tree_fit = (\<lambda>t X y. Inr (sum_list y / real (length y))),
      tree_predict = (\<lambda>t X. Inr (replicate (nrows X) t))\<rparr>"

text \<open>
  The Dense layer of the scenario in the specification: two inputs, one unit, weights
  \<open>[[1],[1]]\<close>, bias \<open>[[0]]\<close>, identity activation; the optimizer of both parameters is
  left open.
\<close>

definition scenario_layer :: "unit optimizer_obj \<Rightarrow> unit DenseLayer" where
  "scenario_layer opt =
     (DenseLayer_init 2 1 identity_activation)
       \<lparr>W := Some (Arr2 [[1], [1]]), wb := Some (Arr2 [[0]]), W_opt := Some opt, wb_opt := Some opt\<rparr>"

text \<open>
  A network of that layer followed by a Dropout layer with \<open>p = 1/4\<close>, with one row of
  validation data.
\<close>

definition scenario_net :: "unit MultilayerPerceptron" where
  "scenario_net =
     \<lparr>n_iterations = 1, optimizer = gradient_step 1,
      layers = [Dense (scenario_layer (gradient_step 1)), Dropout \<lparr>drop_p = 1/4, drop_mask = None\<rparr>],
      errors_training = [], errors_validation = [], cross_ent = square_loss, batch_size = 1,
      X_val = Arr2 [[1, 1]], y_val = Arr2 [[1]]\<rparr>"

text \<open>
  The network that \<^verbatim>\<open>__init__\<close> builds for two iterations, batch size 1 and the validation
  data \<open>([[0,0]], [0])\<close>; it has no layer.
\<close>

definition zero_validation_net :: "unit MultilayerPerceptron" where
  "zero_validation_net =
     \<lparr>n_iterations = 2, optimizer = gradient_step 1, layers = [], errors_training = [],
      errors_validation = [], cross_ent = square_loss, batch_size = 1,
      X_val = Arr2 [[0, 0]], y_val = Arr2 [[1, 0]]\<rparr>"

text \<open>Five samples with one feature, and the one-hot rows of their labels.\<close>

definition five_samples :: mat where
  "five_samples = [[1], [2], [3], [4], [5]]"

definition five_labels :: mat where
  "five_labels = [[1, 0], [0, 1], [1, 0], [0, 1], [1, 0]]"

text \<open>A regressor of two trees with learning rate \<open>1/2\<close>, before and after fitting.\<close>

definition two_trees :: "real GradientBoostingRegressor" where
  "two_trees = GradientBoostingRegressor_init mean_tree 2 (1/2) None 10 0 10 False"

definition two_trees_fitted :: "real GradientBoostingRegressor" where
  "two_trees_fitted = two_trees\<lparr>trees := [- 2, - 1]\<rparr>"

section \<open>What a layer keeps besides its cached input\<close>

definition forget_input :: "'o layer \<Rightarrow> 'o layer" where
  "forget_input l =
     (case l of Dense L \<Rightarrow> Dense (L\<lparr>layer_input := None\<rparr>) | Dropout L \<Rightarrow> Dropout L)"

text \<open>The learnable parameters of a layer and their optimizers; a Dropout layer has none.\<close>

definition layer_params ::
  "'o layer \<Rightarrow> (ndarray option \<times> ndarray option \<times> 'o optimizer_obj option \<times> 'o optimizer_obj option) option" where
  "layer_params l = (case l of Dense L \<Rightarrow> Some (W L, wb L, W_opt L, wb_opt L) | Dropout L \<Rightarrow> None)"

section \<open>Unfolding\<close>

lemmas array_defs = nrows_def ncols_def col_def inner_prod_def matmul_def transpose_mat_def
  scale_def bdim_def bget_def broadcast2_def add_def sub_def mul_def

lemmas dense_defs = dense_forward_pass_def pre_activation_def dense_gradients_def
  dense_update_def dense_backward_pass_def update_def DenseLayer_init_def

lemmas sample_defs = sample_env_def one_hot2_def constant_uniform_def identity_activation_def
  gradient_step_def square_loss_def scenario_layer_def

lemmas net_defs = mlp_forward_pass_def mlp_backward_pass_def layer_forward_pass_def
  layer_backward_pass_def dropout_forward_pass_def dropout_backward_pass_def

lemmas fit_defs = fit_def fit_epoch_def train_batch_def train_on_batch_def validation_step_def
  shuffle_data_def
  index_rows_def n_batches_of_def array_split_def section_sizes_def

section \<open>Dropout in inference mode\<close>

text \<open>
  Claim C8.  For every Dropout layer with drop probability \<open>p\<close> and every input \<open>X\<close>,
  \<^verbatim>\<open>forward_pass\<close> with \<open>training = False\<close> returns \<open>X * (1 - p)\<close>, element by element,
  and leaves the layer (its mask included) and the random generator as they were: no
  mask is drawn or cached.  With \<open>p = 1\<close> the input \<open>[[5,5]]\<close> gives \<open>[[0,0]]\<close>.
\<close>

theorem dropout_inference_forward_pass:
  "dropout_forward_pass E L X False g = Inr (mul_scalar X (1 - drop_p L), L, g) \<and>
   mul_scalar (Arr2 A) (1 - drop_p L) = Arr2 (map (map (\<lambda>x. x * (1 - drop_p L))) A) \<and>
   dropout_forward_pass E \<lparr>drop_p = 1, drop_mask = m\<rparr> (Arr2 [[5, 5]]) False g =
     Inr (Arr2 [[0, 0]], \<lparr>drop_p = 1, drop_mask = m\<rparr>, g)"
  by (simp add: dropout_forward_pass_def)

section \<open>The backward pass of a Dense layer\<close>

text \<open>
  Whatever the optimizer, the gradient that \<^verbatim>\<open>backward_pass\<close> returns is the product of
  the layer gradient with the transpose of the weights the optimizer has just returned.
\<close>

lemma dense_backward_pass_updated_weights:
  assumes "dense_backward_pass L acc_grad = Inr (g, L')"
  shows "\<exists>layer_grad grad_w grad_wb w wo w' wo'.
           dense_gradients L acc_grad = Inr (layer_grad, grad_w, grad_wb) \<and>
           W L = Some w \<and> W_opt L = Some wo \<and> update wo w grad_w = Inr (w', wo') \<and>
           W L' = Some w' \<and> dot layer_grad (T w') = Inr g"
  using assms
  by (auto simp: dense_backward_pass_def dense_update_def
      split: sum.splits prod.splits option.splits)

text \<open>
  Claim C1 (the code departs from it).  The claim: the gradient returned for the
  previous layer is \<open>layer_grad \<cdot> W.T\<close> with the weights \<open>W\<close> held before the update.
  For the scenario layer with cached input \<open>[[1,2]]\<close>, whose optimizer takes the plain
  gradient step with learning rate 1, and the incoming gradient \<open>[[1]]\<close>: the layer
  gradient is \<open>[[1]]\<close>, the weight gradient \<open>[[1],[2]]\<close>, the weights become \<open>[[0],[-1]]\<close>,
  and the code returns \<open>[[0,-1]]\<close>, where the weights before the update give \<open>[[1,1]]\<close>.
\<close>

theorem dense_backward_pass_returns_post_update_gradient:
  "map_sum id fst
     (dense_backward_pass
        ((scenario_layer (gradient_step 1))\<lparr>layer_input := Some (Arr2 [[1, 2]])\<rparr>) (Arr2 [[1]]))
     = Inr (Arr2 [[0, - 1]]) \<and>
   dense_gradients
     ((scenario_layer (gradient_step 1))\<lparr>layer_input := Some (Arr2 [[1, 2]])\<rparr>) (Arr2 [[1]])
     = Inr (Arr2 [[1]], Arr2 [[1], [2]], Arr2 [[1]]) \<and>
   dot (Arr2 [[1]]) (T (Arr2 [[1], [1]])) = Inr (Arr2 [[1, 1]])"
  by (simp add: sample_defs dense_defs array_defs)

text \<open>
  Claim C5 (the code departs from it in its last part).  In the scenario the forward
  pass on \<open>[[1,2]]\<close> returns \<open>[[3]]\<close> and the backward pass with the gradient \<open>[[1]]\<close>
  computes the weight gradient \<open>[[1],[2]]\<close>, for every optimizer.  The gradient returned
  to the previous layer is \<open>[[1,1]]\<close> only if the optimizer leaves the weights as they
  are: with the plain gradient step of learning rate \<open>1/2\<close> the code returns
  \<open>[[1/2,0]]\<close>.
\<close>

theorem dense_scenario_forward_backward:
  "dense_forward_pass (scenario_layer opt) (Arr2 [[1, 2]]) True =
     Inr (Arr2 [[3]], (scenario_layer opt)\<lparr>layer_input := Some (Arr2 [[1, 2]])\<rparr>) \<and>
   dense_gradients ((scenario_layer opt)\<lparr>layer_input := Some (Arr2 [[1, 2]])\<rparr>) (Arr2 [[1]]) =
     Inr (Arr2 [[1]], Arr2 [[1], [2]], Arr2 [[1]]) \<and>
   map_sum id fst
     (dense_backward_pass
        ((scenario_layer (gradient_step (1/2)))\<lparr>layer_input := Some (Arr2 [[1, 2]])\<rparr>) (Arr2 [[1]]))
     = Inr (Arr2 [[1/2, 0]]) \<and>
   map_sum id fst
     (dense_backward_pass
        ((scenario_layer (gradient_step 0))\<lparr>layer_input := Some (Arr2 [[1, 2]])\<rparr>) (Arr2 [[1]]))
     = Inr (Arr2 [[1, 1]])"
  by (simp add: sample_defs dense_defs array_defs)

section \<open>Construction\<close>

text \<open>
  Claim C7, as amended.  Neither constructor checks its configuration: for every
  iteration count, batch size and drop probability, \<^verbatim>\<open>MultilayerPerceptron.__init__\<close> and
  \<^verbatim>\<open>DropoutLayer.__init__\<close> succeed and store the value as given.  The only error of
  \<^verbatim>\<open>MultilayerPerceptron.__init__\<close> is one raised by \<^verbatim>\<open>categorical_to_binary\<close> on the
  validation labels.
\<close>

theorem constructors_accept_every_configuration:
  "(\<exists>N. MultilayerPerceptron_init E n_iter b_size opt lf None u = Inr N \<and>
        n_iterations N = n_iter \<and> batch_size N = b_size) \<and>
   isl (MultilayerPerceptron_init E n_iter b_size opt lf (Some (Xv, yv)) u) =
     isl (categorical_to_binary E yv) \<and>
   DropoutLayer_init q = Inr \<lparr>drop_p = q, drop_mask = None\<rparr>"
  by (simp add: MultilayerPerceptron_init_def DropoutLayer_init_def split: sum.splits)

text \<open>
  The claim as stated fails: an iteration count of \<open>-1\<close>, a batch size of \<open>0\<close> and a
  drop probability of \<open>2\<close> are accepted.
\<close>

theorem constructors_accept_invalid_configuration:
  "MultilayerPerceptron_init sample_env (- 1) 0 (gradient_step 1) square_loss None 0 =
     Inr \<lparr>n_iterations = - 1, optimizer = gradient_step 1, layers = [], errors_training = [],
          errors_validation = [], cross_ent = square_loss, batch_size = 0,
          X_val = Arr0 0, y_val = Arr0 0\<rparr> \<and>
   DropoutLayer_init 2 = Inr \<lparr>drop_p = 2, drop_mask = None\<rparr>"
  by (simp add: MultilayerPerceptron_init_def DropoutLayer_init_def)

section \<open>Prediction\<close>

lemma pre_activation_cache [simp]:
  "pre_activation (L\<lparr>layer_input := c\<rparr>) X = pre_activation L X"
  by (simp add: pre_activation_def cong: option.case_cong sum.case_cong)

lemma dense_forward_pass_Inr:
  assumes "dense_forward_pass L X training = Inr (out, L')"
  shows "L' = L\<lparr>layer_input := Some X\<rparr>"
    and "dense_forward_pass L' X training' = Inr (out, L')"
  using assms by (auto simp: dense_forward_pass_def Let_def split: sum.splits)

lemma layer_forward_pass_inference:
  assumes "layer_forward_pass E l X False g = Inr (out, l', g')"
  shows "forget_input l' = forget_input l \<and> g' = g \<and>
         layer_forward_pass E l' X False g = Inr (out, l', g)"
proof (cases l)
  case (Dense L)
  with assms obtain L' where d: "dense_forward_pass L X False = Inr (out, L')"
    and l': "l' = Dense L'" and g': "g' = g"
    by (auto simp: layer_forward_pass_def split: sum.splits)
  from dense_forward_pass_Inr [OF d] have "L' = L\<lparr>layer_input := Some X\<rparr>"
    and "dense_forward_pass L' X False = Inr (out, L')" by auto
  with Dense l' g' show ?thesis
    by (simp add: layer_forward_pass_def forget_input_def)
next
  case (Dropout L)
  with assms show ?thesis
    by (auto simp: layer_forward_pass_def dropout_forward_pass_def forget_input_def)
qed

lemma forward_layers_inference:
  assumes "forward_layers E ls X False g = Inr (out, ls', g')"
  shows "map forget_input ls' = map forget_input ls \<and> g' = g \<and>
         forward_layers E ls' X False g = Inr (out, ls', g)"
  using assms
proof (induction ls arbitrary: X out ls' g g')
  case Nil
  then show ?case by simp
next
  case (Cons l ls)
  from Cons.prems obtain y l1 g1 where
    h: "layer_forward_pass E l X False g = Inr (y, l1, g1)"
    by (auto split: sum.splits)
  with Cons.prems obtain ls1 where
    t: "forward_layers E ls y False g1 = Inr (out, ls1, g')" and ls': "ls' = l1 # ls1"
    by (auto split: sum.splits)
  from layer_forward_pass_inference [OF h] have
    h': "forget_input l1 = forget_input l" "g1 = g"
        "layer_forward_pass E l1 X False g = Inr (y, l1, g)" by auto
  from Cons.IH [OF t] have
    t': "map forget_input ls1 = map forget_input ls" "g' = g1"
        "forward_layers E ls1 y False g1 = Inr (out, ls1, g1)" by auto
  from h' t' ls' show ?case by simp
qed

text \<open>
  A forward pass, in either mode, leaves the parameters and optimizers of every layer as
  they are.
\<close>

lemma layer_forward_pass_params:
  "layer_forward_pass E l X training g = Inr (out, l', g') \<Longrightarrow> layer_params l' = layer_params l"
  by (cases l)
     (auto simp: layer_forward_pass_def layer_params_def dest: dense_forward_pass_Inr(1)
       split: sum.splits)

lemma forward_layers_params:
  "forward_layers E ls X training g = Inr (out, ls', g') \<Longrightarrow>
     map layer_params ls' = map layer_params ls"
proof (induction ls arbitrary: X out ls' g g')
  case Nil
  then show ?case by simp
next
  case (Cons l ls)
  from Cons.prems obtain y l1 g1 ls1 where
    "layer_forward_pass E l X training g = Inr (y, l1, g1)"
    "forward_layers E ls y training g1 = Inr (out, ls1, g')" "ls' = l1 # ls1"
    by (auto split: sum.splits)
  with Cons.IH [of y g1 out ls1 g'] layer_forward_pass_params [of E l X training g y l1 g1]
  show ?case by simp
qed

lemma scenario_predict:
  "predict sample_env scenario_net (Arr2 [[1, 2]]) 0 =
     Inr ([0],
          scenario_net
            \<lparr>layers := [Dense ((scenario_layer (gradient_step 1))\<lparr>layer_input := Some (Arr2 [[1, 2]])\<rparr>),
                        Dropout \<lparr>drop_p = 1/4, drop_mask = None\<rparr>]\<rparr>, 0)"
  by (simp add: predict_def scenario_net_def net_defs sample_defs dense_defs array_defs)

text \<open>
  Claim C4, as amended.  Whenever \<^verbatim>\<open>predict(X)\<close> returns, every layer is as before
  except for the cached \<open>layer_input\<close> of the Dense layers, which the forward pass
  overwrites: in particular the parameters \<open>W\<close> and \<open>wb\<close> and their optimizers, and every
  Dropout layer's \<open>p\<close> and mask, are unchanged; the rest of the network and the random
  generator are unchanged; and a second \<^verbatim>\<open>predict\<close> on the same input returns the same
  labels and leaves the network exactly as the first call left it.
\<close>

theorem predict_changes_only_input_cache:
  assumes "predict E N X g = Inr (labels, N', g')"
  shows "map forget_input (layers N') = map forget_input (layers N) \<and>
         map layer_params (layers N') = map layer_params (layers N) \<and>
         N'\<lparr>layers := layers N\<rparr> = N \<and> g' = g \<and>
         predict E N' X g' = Inr (labels, N', g')"
proof -
  from assms obtain out ls where
    f: "forward_layers E (layers N) X False g = Inr (out, ls, g')"
    and N': "N' = N\<lparr>layers := ls\<rparr>" and a: "argmax_axis1 out = Inr labels"
    by (auto simp: predict_def mlp_forward_pass_def split: sum.splits)
  from forward_layers_inference [OF f] have
    "map forget_input ls = map forget_input (layers N)" "g' = g"
    "forward_layers E ls X False g = Inr (out, ls, g)" by auto
  with N' a forward_layers_params [OF f] show ?thesis
    by (simp add: predict_def mlp_forward_pass_def)
qed

theorem predict_changes_only_input_cache_witness:
  "predict sample_env scenario_net (Arr2 [[1, 2]]) 0 =
     Inr ([0],
          scenario_net
            \<lparr>layers := [Dense ((scenario_layer (gradient_step 1))\<lparr>layer_input := Some (Arr2 [[1, 2]])\<rparr>),
                        Dropout \<lparr>drop_p = 1/4, drop_mask = None\<rparr>]\<rparr>, 0) \<and>
   map forget_input
     [Dense ((scenario_layer (gradient_step 1))\<lparr>layer_input := Some (Arr2 [[1, 2]])\<rparr>),
      Dropout \<lparr>drop_p = 1/4, drop_mask = None\<rparr>] = map forget_input (layers scenario_net) \<and>
   predict sample_env
     (scenario_net
        \<lparr>layers := [Dense ((scenario_layer (gradient_step 1))\<lparr>layer_input := Some (Arr2 [[1, 2]])\<rparr>),
                    Dropout \<lparr>drop_p = 1/4, drop_mask = None\<rparr>]\<rparr>) (Arr2 [[1, 2]]) 0 =
     Inr ([0],
          scenario_net
            \<lparr>layers := [Dense ((scenario_layer (gradient_step 1))\<lparr>layer_input := Some (Arr2 [[1, 2]])\<rparr>),
                        Dropout \<lparr>drop_p = 1/4, drop_mask = None\<rparr>]\<rparr>, 0)"
  using predict_changes_only_input_cache [OF scenario_predict] scenario_predict by simp

text \<open>
  The claim as stated fails: \<^verbatim>\<open>predict\<close> on \<open>[[1,2]]\<close> leaves the Dense layer of the
  scenario network with the cached input \<open>[[1,2]]\<close>, where it had none.
\<close>

theorem predict_overwrites_input_cache:
  "predict sample_env scenario_net (Arr2 [[1, 2]]) 0 =
     Inr ([0],
          scenario_net
            \<lparr>layers := [Dense ((scenario_layer (gradient_step 1))\<lparr>layer_input := Some (Arr2 [[1, 2]])\<rparr>),
                        Dropout \<lparr>drop_p = 1/4, drop_mask = None\<rparr>]\<rparr>, 0) \<and>
   [Dense ((scenario_layer (gradient_step 1))\<lparr>layer_input := Some (Arr2 [[1, 2]])\<rparr>),
    Dropout \<lparr>drop_p = 1/4, drop_mask = None\<rparr>] \<noteq> layers scenario_net"
  by (subst scenario_predict) (simp add: scenario_net_def scenario_layer_def DenseLayer_init_def)

section \<open>Fitting with fewer samples than a batch\<close>

lemma array_split_nonpositive: "k \<le> 0 \<Longrightarrow> array_split xs k = Inl ValueError"
  by (simp add: array_split_def)

lemma fit_epoch_nonpositive:
  assumes "k \<le> 0"
  shows "isl (fit_epoch E N X y k g)"
    and "shuffle_data E g X y = Inr r \<Longrightarrow> fit_epoch E N X y k g = Inl ValueError"
  using assms by (auto simp: fit_epoch_def array_split_nonpositive split: sum.splits prod.splits)

text \<open>
  With a batch size of zero the batch count raises ZeroDivisionError before the first
  epoch; with a negative one the batch count is not positive and the first epoch fails in
  \<^verbatim>\<open>np.array_split\<close>.  Either way no batch is formed.
\<close>

lemma fit_nonpositive_batch_size:
  assumes "batch_size N \<le> 0" and "0 < n_iterations N"
  shows "isl (fit E N X y g)"
proof (cases "categorical_to_binary E y")
  case (Inl e)
  then show ?thesis by (simp add: fit_def)
next
  case (Inr yb)
  show ?thesis
  proof (cases "batch_size N = 0")
    case True
    with Inr show ?thesis by (simp add: fit_def n_batches_of_def)
  next
    case False
    with assms(1) have neg: "batch_size N < 0" by simp
    then have nb: "n_batches_of (nrows X) (batch_size N) = Inr (- (int (nrows X) div (- batch_size N)))"
      by (simp add: n_batches_of_def)
    have le: "- (int (nrows X) div (- batch_size N)) \<le> 0"
      using neg by (simp add: pos_imp_zdiv_nonneg_iff)
    from assms(2) obtain m where m: "nat (n_iterations N) = Suc m"
      by (cases "nat (n_iterations N)") auto
    from fit_epoch_nonpositive(1) [OF le, of E N X yb g]
    obtain e where "fit_epoch E N X yb (- (int (nrows X) div (- batch_size N))) g = Inl e"
      by (cases "fit_epoch E N X yb (- (int (nrows X) div (- batch_size N))) g") auto
    with Inr nb m show ?thesis by (simp add: fit_def)
  qed
qed

text \<open>
  Claim C10, as amended.  For every call \<^verbatim>\<open>fit(X, y)\<close> with \<open>0 < n_samples < batch_size\<close>
  and at least one iteration, the batch count is zero,
  \<^verbatim>\<open>np.array_split(np.arange(n_samples), 0)\<close> raises ValueError, and \<^verbatim>\<open>fit\<close> fails; it
  fails with that ValueError, in its first epoch and before any batch is trained,
  whenever the label conversion and the shuffle succeed.
\<close>

theorem fit_fails_on_zero_batches:
  assumes "0 < nrows X" and "int (nrows X) < batch_size N" and "0 < n_iterations N"
  shows "n_batches_of (nrows X) (batch_size N) = Inr 0 \<and>
         array_split [0..<nrows X] 0 = Inl ValueError \<and>
         isl (fit E N X y g) \<and>
         (\<forall>yb r. categorical_to_binary E y = Inr yb \<and> shuffle_data E g X yb = Inr r
            \<longrightarrow> fit E N X y g = Inl ValueError)"
proof -
  have nb: "n_batches_of (nrows X) (batch_size N) = Inr 0"
    using assms by (simp add: n_batches_of_def)
  from assms(3) obtain k where k: "nat (n_iterations N) = Suc k"
    by (cases "nat (n_iterations N)") auto
  have "isl (fit E N X y g)"
  proof (cases "categorical_to_binary E y")
    case (Inl e)
    then show ?thesis by (simp add: fit_def)
  next
    case (Inr yb)
    from fit_epoch_nonpositive(1) [of 0 E N X yb g]
    obtain e where "fit_epoch E N X yb 0 g = Inl e"
      by (cases "fit_epoch E N X yb 0 g") auto
    with Inr show ?thesis by (simp add: fit_def nb k)
  qed
  moreover have "fit E N X y g = Inl ValueError"
    if "categorical_to_binary E y = Inr yb" "shuffle_data E g X yb = Inr r" for yb r
    using that fit_epoch_nonpositive(2) [of 0 E g X yb r N]
    by (simp add: fit_def nb k)
  ultimately show ?thesis
    using nb by (simp add: array_split_nonpositive)
qed

theorem fit_fails_on_zero_batches_witness:
  "0 < nrows [[1, 2::real]] \<and>
   int (nrows [[1, 2::real]]) < batch_size (scenario_net\<lparr>batch_size := 2\<rparr>) \<and>
   0 < n_iterations (scenario_net\<lparr>batch_size := 2\<rparr>) \<and>
   categorical_to_binary sample_env [0] = Inr [[1, 0]] \<and>
   shuffle_data sample_env 0 [[1, 2]] [[1, 0]] = Inr (([[1, 2]], [[1, 0]]), 1) \<and>
   n_batches_of (nrows [[1, 2::real]]) (batch_size (scenario_net\<lparr>batch_size := 2\<rparr>)) = Inr 0 \<and>
   fit sample_env (scenario_net\<lparr>batch_size := 2\<rparr>) [[1, 2]] [0] 0 = Inl ValueError"
proof -
  have a: "0 < nrows [[1, 2::real]]" by (simp add: nrows_def)
  have b: "int (nrows [[1, 2::real]]) < batch_size (scenario_net\<lparr>batch_size := 2\<rparr>)"
    by (simp add: nrows_def)
  have c: "0 < n_iterations (scenario_net\<lparr>batch_size := 2\<rparr>)"
    by (simp add: scenario_net_def)
  have d: "categorical_to_binary sample_env [0] = Inr [[1, 0]]"
    by (simp add: sample_defs)
  have e: "shuffle_data sample_env 0 [[1, 2]] [[1, 0]] = Inr (([[1, 2]], [[1, 0]]), 1)"
    by (simp add: shuffle_data_def index_rows_def sample_defs nrows_def)
  from fit_fails_on_zero_batches [OF a b c, of sample_env "[0]" 0] a b c d e
  show ?thesis by blast
qed

text \<open>
  The claim as stated fails: with an iteration count of \<open>0\<close>, one sample and a batch
  size of \<open>2\<close>, \<^verbatim>\<open>fit\<close> returns, the network and the generator untouched.
\<close>

theorem fit_zero_iterations_returns:
  "0 < nrows [[1, 2::real]] \<and>
   int (nrows [[1, 2::real]]) < batch_size (scenario_net\<lparr>n_iterations := 0, batch_size := 2\<rparr>) \<and>
   fit sample_env (scenario_net\<lparr>n_iterations := 0, batch_size := 2\<rparr>) [[1, 2]] [0] 0 =
     Inr (scenario_net\<lparr>n_iterations := 0, batch_size := 2\<rparr>, 0)"
  by (simp add: fit_def n_batches_of_def sample_defs nrows_def)

section \<open>The validation error of an epoch\<close>

text \<open>The validation step leaves the parameters and optimizers of every layer as they are.\<close>

lemma validation_step_params:
  assumes "validation_step E N g = Inr (N', g')"
  shows "map layer_params (layers N') = map layer_params (layers N)"
proof (cases "any (X_val N)")
  case False
  with assms show ?thesis by (simp add: validation_step_def)
next
  case True
  with assms obtain out ls l where
    f: "forward_layers E (layers N) (X_val N) True g = Inr (out, ls, g')"
    and N': "N' = N\<lparr>layers := ls, errors_validation := errors_validation N @ [mean l]\<rparr>"
    by (auto simp: validation_step_def mlp_forward_pass_def split: sum.splits)
  from forward_layers_params [OF f] N' show ?thesis by simp
qed

text \<open>
  Forward and backward passes change nothing of the network but its layers.  Every
  epoch that completes appends one training loss, and one validation loss exactly when
  \<^verbatim>\<open>self.X_val.any()\<close>.
\<close>

lemma mlp_forward_pass_frame:
  "mlp_forward_pass E N X training g = Inr (out, N', g') \<Longrightarrow> \<exists>ls. N' = N\<lparr>layers := ls\<rparr>"
  by (auto simp: mlp_forward_pass_def split: sum.splits)

lemma mlp_backward_pass_frame:
  "mlp_backward_pass N lg = Inr N' \<Longrightarrow> \<exists>ls. N' = N\<lparr>layers := ls\<rparr>"
  by (auto simp: mlp_backward_pass_def split: sum.splits)

lemma train_batch_frame:
  assumes "train_batch E N X' y' idx g = Inr (N', l, g')"
  shows "\<exists>ls. N' = N\<lparr>layers := ls\<rparr>"
proof -
  from assms obtain Xb out N1 lg where
    f: "mlp_forward_pass E N (Arr2 Xb) True g = Inr (out, N1, g')"
    and b: "mlp_backward_pass N1 lg = Inr N'"
    by (auto simp: train_batch_def train_on_batch_def split: sum.splits)
  from mlp_forward_pass_frame [OF f] mlp_backward_pass_frame [OF b]
  obtain ls1 ls2 where "N1 = N\<lparr>layers := ls1\<rparr>" "N' = N1\<lparr>layers := ls2\<rparr>" by auto
  then have "N' = N\<lparr>layers := ls2\<rparr>" by simp
  then show ?thesis ..
qed

lemma train_batches_frame:
  "train_batches E N X' y' splits acc g = Inr (N', l, g') \<Longrightarrow> \<exists>ls. N' = N\<lparr>layers := ls\<rparr>"
proof (induction splits arbitrary: N acc g)
  case Nil
  then have "N' = N\<lparr>layers := layers N\<rparr>" by simp
  then show ?case ..
next
  case (Cons idx rest)
  from Cons.prems obtain N1 l1 g1 where
    a: "train_batch E N X' y' idx g = Inr (N1, l1, g1)"
    and b: "train_batches E N1 X' y' rest (acc + l1) g1 = Inr (N', l, g')"
    by (auto split: sum.splits)
  from train_batch_frame [OF a] Cons.IH [OF b]
  obtain ls1 ls2 where "N1 = N\<lparr>layers := ls1\<rparr>" "N' = N1\<lparr>layers := ls2\<rparr>" by auto
  then have "N' = N\<lparr>layers := ls2\<rparr>" by simp
  then show ?case ..
qed

lemma fit_epoch_history:
  assumes "fit_epoch E N X y k g = Inr (N', g')"
  shows "length (errors_training N') = Suc (length (errors_training N)) \<and>
         length (errors_validation N') =
           length (errors_validation N) + (if any (X_val N) then 1 else 0) \<and>
         X_val N' = X_val N"
proof -
  from assms obtain N1 err g2 X' y' splits g1 where
    t: "train_batches E N X' y' splits 0 g1 = Inr (N1, err, g2)"
    and v: "validation_step E
              (N1\<lparr>errors_training := errors_training N1 @ [err / real_of_int k]\<rparr>) g2 = Inr (N', g')"
    by (auto simp: fit_epoch_def split: sum.splits prod.splits)
  from train_batches_frame [OF t] obtain ls where N1: "N1 = N\<lparr>layers := ls\<rparr>" ..
  show ?thesis
  proof (cases "any (X_val N)")
    case False
    with v N1 show ?thesis by (auto simp: validation_step_def)
  next
    case True
    with v N1 show ?thesis
      by (auto simp: validation_step_def mlp_forward_pass_def split: sum.splits)
  qed
qed

lemma fit_epochs_history:
  "fit_epochs E m N X y k g = Inr (N', g') \<Longrightarrow>
     length (errors_training N') = length (errors_training N) + m \<and>
     length (errors_validation N') =
       length (errors_validation N) + (if any (X_val N) then m else 0) \<and>
     X_val N' = X_val N"
proof (induction m arbitrary: N g)
  case 0
  then show ?case by simp
next
  case (Suc m)
  from Suc.prems obtain N1 g1 where
    a: "fit_epoch E N X y k g = Inr (N1, g1)"
    and b: "fit_epochs E m N1 X y k g1 = Inr (N', g')"
    by (auto split: sum.splits)
  from fit_epoch_history [OF a] Suc.IH [OF b] show ?case by auto
qed

lemma fit_history:
  assumes "fit E N X y g = Inr (N', g')"
  shows "length (errors_training N') = length (errors_training N) + nat (n_iterations N) \<and>
         length (errors_validation N') =
           length (errors_validation N) + (if any (X_val N) then nat (n_iterations N) else 0)"
proof -
  from assms obtain yb k where
    "fit_epochs E (nat (n_iterations N)) N X yb k g = Inr (N', g')"
    by (auto simp: fit_def split: sum.splits)
  from fit_epochs_history [OF this] show ?thesis by simp
qed

text \<open>
  Claim C3 (the code departs from it).  The claim: one validation loss per completed
  epoch exactly when validation data was supplied.  The network constructed with the
  validation data \<open>([[0,0]], [0])\<close> and fitted for two epochs on the sample \<open>[[1,2]]\<close> with
  label \<open>0\<close> records two training losses and no validation loss: the test
  \<^verbatim>\<open>self.X_val.any()\<close> asks for a non-zero validation input.
\<close>

theorem fit_skips_all_zero_validation_inputs:
  "MultilayerPerceptron_init sample_env 2 1 (gradient_step 1) square_loss (Some ([[0, 0]], [0])) 0
     = Inr zero_validation_net \<and>
   fit sample_env zero_validation_net [[1, 2]] [0] 0 =
     Inr (zero_validation_net\<lparr>errors_training := [1, 1]\<rparr>, 2) \<and>
   errors_validation (zero_validation_net\<lparr>errors_training := [1, 1]\<rparr>) = []"
  by (simp add: MultilayerPerceptron_init_def zero_validation_net_def fit_defs net_defs
      sample_defs array_defs numeral_2_eq_2)

text \<open>
  Claim C2 (the code departs from it).  The claim: the validation pass runs with
  \<open>training = False\<close>.  In the scenario network the validation step draws a mask from the
  generator, caches it in the Dropout layer and records the loss \<open>1/2\<close> of the masked
  output \<open>[[2]]\<close>; the forward pass with \<open>training = False\<close> gives \<open>[[3/2]]\<close>, draws nothing
  and caches no mask.  The weights and the bias of the Dense layer are the same after
  both.
\<close>

theorem validation_step_runs_in_training_mode:
  "validation_step sample_env scenario_net 0 =
     Inr (scenario_net
            \<lparr>layers := [Dense ((scenario_layer (gradient_step 1))\<lparr>layer_input := Some (Arr2 [[1, 1]])\<rparr>),
                        Dropout \<lparr>drop_p = 1/4, drop_mask = Some (Arr2 [[1]])\<rparr>],
             errors_validation := [1/2]\<rparr>, 1) \<and>
   mlp_forward_pass sample_env scenario_net (Arr2 [[1, 1]]) False 0 =
     Inr (Arr2 [[3/2]],
          scenario_net
            \<lparr>layers := [Dense ((scenario_layer (gradient_step 1))\<lparr>layer_input := Some (Arr2 [[1, 1]])\<rparr>),
                        Dropout \<lparr>drop_p = 1/4, drop_mask = None\<rparr>]\<rparr>, 0)"
  by (simp add: scenario_net_def validation_step_def net_defs sample_defs dense_defs array_defs)

section \<open>The batches of an epoch\<close>

lemma length_split_sizes [simp]: "length (split_sizes xs ss) = length ss"
  by (induction ss arbitrary: xs) auto

lemma concat_split_sizes: "concat (split_sizes xs ss) = take (sum_list ss) xs"
proof (induction ss arbitrary: xs)
  case Nil
  then show ?case by simp
next
  case (Cons s ss)
  have "take s xs @ take (sum_list ss) (drop s xs) = take (s + sum_list ss) xs"
    by (simp add: take_add)
  with Cons show ?case by simp
qed

lemma map_length_split_sizes:
  "sum_list ss \<le> length xs \<Longrightarrow> map length (split_sizes xs ss) = ss"
  by (induction ss arbitrary: xs) auto

lemma sum_list_section_sizes: "0 < (k::nat) \<Longrightarrow> sum_list (section_sizes n k) = n"
proof -
  assume k: "0 < k"
  have "n mod k \<le> k" using k by (simp add: less_imp_le)
  then have "sum_list (section_sizes n k) = (n mod k) * (n div k + 1) + (k - n mod k) * (n div k)"
    by (simp add: section_sizes_def sum_list_replicate)
  also have "\<dots> = n mod k + ((n mod k) + (k - n mod k)) * (n div k)"
    by (simp add: algebra_simps)
  also have "\<dots> = n mod k + k * (n div k)"
    using \<open>n mod k \<le> k\<close> by simp
  also have "\<dots> = n" by simp
  finally show ?thesis .
qed

lemma length_section_sizes: "0 < k \<Longrightarrow> length (section_sizes n k) = k"
  by (simp add: section_sizes_def less_imp_le)

lemma section_sizes_lower: "s \<in> set (section_sizes n k) \<Longrightarrow> n div k \<le> s"
  by (auto simp: section_sizes_def)

lemma array_split_positive:
  assumes "0 < k"
  shows "\<exists>splits. array_split xs (int k) = Inr splits \<and> length splits = k \<and>
           concat splits = xs \<and> map length splits = section_sizes (length xs) k"
proof -
  let ?ss = "section_sizes (length xs) k"
  have s: "sum_list ?ss = length xs" using assms by (rule sum_list_section_sizes)
  have "array_split xs (int k) = Inr (split_sizes xs ?ss)"
    using assms by (simp add: array_split_def)
  moreover have "length (split_sizes xs ?ss) = k"
    using assms by (simp add: length_section_sizes)
  moreover have "concat (split_sizes xs ?ss) = xs"
    by (simp add: concat_split_sizes s)
  moreover have "map length (split_sizes xs ?ss) = ?ss"
    by (rule map_length_split_sizes) (simp add: s)
  ultimately show ?thesis by blast
qed

lemma batch_size_le_section:
  fixes b n :: nat
  assumes "0 < b" "b \<le> n"
  shows "b \<le> n div (n div b)"
proof -
  have pos: "0 < n div b" using assms by (simp add: div_greater_zero_iff)
  have "(n div b) * b \<le> n" by simp
  then have "b * (n div b) \<le> n" by (simp add: mult.commute)
  then show ?thesis using pos by (simp add: less_eq_div_iff_mult_less_eq)
qed

lemma unique_batch:
  assumes d: "distinct (concat bs)" and ne: "[] \<notin> set bs" and i: "i \<in> set (concat bs)"
  shows "\<exists>!b. b < length bs \<and> i \<in> set (bs ! b)"
proof -
  from i obtain ys where "ys \<in> set bs" "i \<in> set ys" by auto
  then obtain b where b: "b < length bs" "i \<in> set (bs ! b)"
    by (metis in_set_conv_nth)
  have "c = b" if c: "c < length bs" "i \<in> set (bs ! c)" for c
  proof (rule ccontr)
    assume neq: "c \<noteq> b"
    from d ne have db: "distinct bs"
      by (simp add: distinct_concat_iff removeAll_id)
    with neq b(1) c(1) have "bs ! c \<noteq> bs ! b"
      by (simp add: nth_eq_iff_index_eq)
    moreover have "bs ! c \<in> set bs" "bs ! b \<in> set bs" using b c by auto
    ultimately have "set (bs ! c) \<inter> set (bs ! b) = {}"
      using d by (simp add: distinct_concat_iff)
    with b(2) c(2) show False by auto
  qed
  with b show ?thesis by blast
qed


lemma index_rows_Inr:
  "set idx \<subseteq> {0..<length X} \<Longrightarrow> index_rows X idx = Inr (map (\<lambda>i. X ! i) idx)"
  by (auto simp: index_rows_def list_all_iff)

lemma epoch_splits_partition:
  fixes X y :: mat
  assumes pos: "0 < batch_size N" and le: "batch_size N \<le> int (nrows X)"
    and draw: "random_permutation E g (nrows X) = (perm, g')"
    and perm: "mset perm = mset [0..<nrows X]"
    and y: "nrows X \<le> nrows y"
  shows "\<exists>splits X' y'.
           n_batches_of (nrows X) (batch_size N) = Inr (int (nrows X div nat (batch_size N))) \<and>
           shuffle_data E g X y = Inr ((X', y'), g') \<and>
           array_split [0..<nrows X] (int (nrows X div nat (batch_size N))) = Inr splits \<and>
           length splits = nrows X div nat (batch_size N) \<and>
           concat splits = [0..<nrows X] \<and>
           map length splits = section_sizes (nrows X) (nrows X div nat (batch_size N)) \<and>
           list_all (\<lambda>s. nat (batch_size N) \<le> length s) splits \<and>
           (\<forall>s\<in>set splits. index_rows X' s = Inr (map (\<lambda>j. X ! (perm ! j)) s) \<and>
                            index_rows y' s = Inr (map (\<lambda>j. y ! (perm ! j)) s)) \<and>
           (\<forall>i<nrows X. \<exists>!b. b < length splits \<and> i \<in> set (map (\<lambda>j. perm ! j) (splits ! b)))"
proof -
  define n where "n = nrows X"
  define b where "b = nat (batch_size N)"
  define k where "k = n div b"
  have n: "length X = n" "n \<le> length y" using y by (simp_all add: n_def nrows_def)
  have b: "0 < b" "b \<le> n" "batch_size N = int b"
    using pos le by (simp_all add: b_def n_def)
  have k: "0 < k" using b by (simp add: k_def div_greater_zero_iff)
  have nb: "n_batches_of n (batch_size N) = Inr (int k)"
    using b by (simp add: n_batches_of_def k_def zdiv_int)
  have set_perm: "set perm = {0..<n}"
    using perm mset_eq_setD [of perm "[0..<n]"] by (simp add: n_def)
  have len_perm: "length perm = n"
    using perm mset_eq_length [of perm "[0..<n]"] by (simp add: n_def)
  have dist_perm: "distinct perm"
    using perm mset_eq_imp_distinct_iff [of perm "[0..<n]"] by (simp add: n_def)
  define X' where "X' = map (\<lambda>i. X ! i) perm"
  define y' where "y' = map (\<lambda>i. y ! i) perm"
  have "index_rows X perm = Inr X'" "index_rows y perm = Inr y'"
    unfolding X'_def y'_def using set_perm n by (auto intro!: index_rows_Inr)
  then have sh: "shuffle_data E g X y = Inr ((X', y'), g')"
    using draw by (simp add: shuffle_data_def n_def [symmetric])
  from array_split_positive [OF k, of "[0..<n]"] obtain splits where
    sp: "array_split [0..<n] (int k) = Inr splits" "length splits = k"
        "concat splits = [0..<n]" "map length splits = section_sizes n k"
    by auto
  have len_s: "b \<le> length s" if "s \<in> set splits" for s
  proof -
    from that have "length s \<in> set (map length splits)" by simp
    then have "n div k \<le> length s" using sp(4) section_sizes_lower by metis
    moreover have "b \<le> n div k" unfolding k_def using b(1,2) by (rule batch_size_le_section)
    ultimately show ?thesis by simp
  qed
  have sub: "set s \<subseteq> {0..<n}" if "s \<in> set splits" for s
  proof -
    from that have "set s \<subseteq> set (concat splits)" by auto
    then show ?thesis by (simp add: sp(3))
  qed
  have rows: "index_rows X' s = Inr (map (\<lambda>j. X ! (perm ! j)) s) \<and>
              index_rows y' s = Inr (map (\<lambda>j. y ! (perm ! j)) s)" if "s \<in> set splits" for s
  proof -
    from sub [OF that] have in_range: "\<And>j. j \<in> set s \<Longrightarrow> j < length perm"
      by (auto simp: len_perm)
    have "index_rows X' s = Inr (map (\<lambda>j. X' ! j) s)"
      using sub [OF that] by (intro index_rows_Inr) (simp add: X'_def len_perm)
    moreover have "map (\<lambda>j. X' ! j) s = map (\<lambda>j. X ! (perm ! j)) s"
      using in_range by (simp add: X'_def)
    moreover have "index_rows y' s = Inr (map (\<lambda>j. y' ! j) s)"
      using sub [OF that] by (intro index_rows_Inr) (simp add: y'_def len_perm)
    moreover have "map (\<lambda>j. y' ! j) s = map (\<lambda>j. y ! (perm ! j)) s"
      using in_range by (simp add: y'_def)
    ultimately show ?thesis by simp
  qed
  define bs where "bs = map (map (\<lambda>j. perm ! j)) splits"
  have "concat bs = map (\<lambda>j. perm ! j) (concat splits)"
    by (simp add: bs_def map_concat)
  also have "\<dots> = perm"
    using map_nth [of perm] by (simp add: sp(3) len_perm)
  finally have cbs: "concat bs = perm" .
  have nonempty: "[] \<notin> set bs"
  proof
    assume "[] \<in> set bs"
    then obtain s where "s \<in> set splits" "s = []" by (auto simp: bs_def)
    with len_s [of s] b(1) show False by simp
  qed
  have uniq: "\<exists>!c. c < length splits \<and> i \<in> set (map (\<lambda>j. perm ! j) (splits ! c))"
    if "i < n" for i
  proof -
    from that have "i \<in> set (concat bs)" by (simp add: cbs set_perm)
    from unique_batch [OF _ nonempty this] dist_perm
    have "\<exists>!c. c < length bs \<and> i \<in> set (bs ! c)" by (simp add: cbs)
    moreover have "length bs = length splits" by (simp add: bs_def)
    moreover have "bs ! c = map (\<lambda>j. perm ! j) (splits ! c)" if "c < length splits" for c
      using that by (simp add: bs_def)
    ultimately show ?thesis by (metis (no_types, lifting))
  qed
  from nb sh sp len_s rows uniq show ?thesis
    unfolding n_def [symmetric] b_def [symmetric] k_def [symmetric]
    by (auto simp: list_all_iff)
qed

lemma train_batches_on_rows:
  assumes "\<And>s. s \<in> set ss \<Longrightarrow> index_rows X' s = Inr (f s) \<and> index_rows y' s = Inr (h s)"
  shows "train_batches E M X' y' ss acc g = train_on_batches E M (map (\<lambda>s. (f s, h s)) ss) acc g"
  using assms
proof (induction ss arbitrary: M acc g)
  case Nil
  show ?case by simp
next
  case (Cons s ss)
  then have "index_rows X' s = Inr (f s)" "index_rows y' s = Inr (h s)" by auto
  then have tb: "train_batch E M X' y' s g = train_on_batch E M (f s) (h s) g"
    by (simp add: train_batch_def)
  have p: "\<And>t. t \<in> set ss \<Longrightarrow> index_rows X' t = Inr (f t) \<and> index_rows y' t = Inr (h t)"
    using Cons.prems by auto
  note IH = Cons.IH [OF p]
  show ?case by (simp add: tb IH split: sum.splits)
qed

text \<open>
  Claim C6, as amended.  \<^verbatim>\<open>fit\<close> runs its epochs with the batch count
  \<open>k = n_samples div batch_size\<close>.  In an epoch with \<open>0 < batch_size \<le> n_samples\<close>, started on
  any network, where the shuffle has drawn the permutation \<open>perm\<close> of the sample positions
  and every sample has its row of labels: the positions \<open>0..n_samples-1\<close> of the shuffled
  arrays are cut into exactly \<open>k\<close> splits, contiguous and in order; the first
  \<open>n_samples mod k\<close> of the splits hold one element more than the others, so the
  remainder is spread over the splits and nothing is dropped; no split is smaller than the
  batch size; every training sample belongs to exactly one split; and the epoch is the
  batch loop over exactly these batches, in this order, the batch of a split holding the
  samples \<open>X[perm[j]]\<close> and labels \<open>y[perm[j]]\<close> of its positions \<open>j\<close>, followed by the
  recording of the mean training loss and by the validation step.
\<close>

theorem fit_epoch_batches_partition:
  fixes X y :: mat
  assumes pos: "0 < batch_size N" and le: "batch_size N \<le> int (nrows X)"
    and draw: "random_permutation E g (nrows X) = (perm, g')"
    and perm: "mset perm = mset [0..<nrows X]"
    and y: "nrows X \<le> nrows y"
  shows "\<exists>splits.
           fit E N X labels g0 =
             (case categorical_to_binary E labels of
                Inl e \<Rightarrow> Inl e
              | Inr yb \<Rightarrow>
                  fit_epochs E (nat (n_iterations N)) N X yb
                    (int (nrows X div nat (batch_size N))) g0) \<and>
           array_split [0..<nrows X] (int (nrows X div nat (batch_size N))) = Inr splits \<and>
           length splits = nrows X div nat (batch_size N) \<and>
           concat splits = [0..<nrows X] \<and>
           map length splits = section_sizes (nrows X) (nrows X div nat (batch_size N)) \<and>
           list_all (\<lambda>s. nat (batch_size N) \<le> length s) splits \<and>
           (\<forall>i<nrows X. \<exists>!b. b < length splits \<and> i \<in> set (map (\<lambda>j. perm ! j) (splits ! b))) \<and>
           (\<forall>M. fit_epoch E M X y (int (nrows X div nat (batch_size N))) g =
              (case train_on_batches E M
                      (map (\<lambda>s. (map (\<lambda>j. X ! (perm ! j)) s, map (\<lambda>j. y ! (perm ! j)) s)) splits)
                      0 g' of
                 Inl e \<Rightarrow> Inl e
               | Inr (M1, batch_t_error, g2) \<Rightarrow>
                   validation_step E
                     (M1\<lparr>errors_training :=
                           errors_training M1 @
                             [batch_t_error / real (nrows X div nat (batch_size N))]\<rparr>) g2))"
proof -
  from epoch_splits_partition [OF pos le draw perm y] obtain splits X' y' where
    nb: "n_batches_of (nrows X) (batch_size N) = Inr (int (nrows X div nat (batch_size N)))"
    and sh: "shuffle_data E g X y = Inr ((X', y'), g')"
    and sp: "array_split [0..<nrows X] (int (nrows X div nat (batch_size N))) = Inr splits"
    and rest: "length splits = nrows X div nat (batch_size N)"
      "concat splits = [0..<nrows X]"
      "map length splits = section_sizes (nrows X) (nrows X div nat (batch_size N))"
      "list_all (\<lambda>s. nat (batch_size N) \<le> length s) splits"
      "\<forall>i<nrows X. \<exists>!b. b < length splits \<and> i \<in> set (map (\<lambda>j. perm ! j) (splits ! b))"
    and rows: "\<forall>s\<in>set splits. index_rows X' s = Inr (map (\<lambda>j. X ! (perm ! j)) s) \<and>
                              index_rows y' s = Inr (map (\<lambda>j. y ! (perm ! j)) s)"
    by blast
  have f: "fit E N X labels g0 =
             (case categorical_to_binary E labels of
                Inl e \<Rightarrow> Inl e
              | Inr yb \<Rightarrow>
                  fit_epochs E (nat (n_iterations N)) N X yb
                    (int (nrows X div nat (batch_size N))) g0)"
    by (simp add: fit_def nb cong: sum.case_cong)
  have tb: "train_batches E M X' y' splits 0 g' =
              train_on_batches E M
                (map (\<lambda>s. (map (\<lambda>j. X ! (perm ! j)) s, map (\<lambda>j. y ! (perm ! j)) s)) splits) 0 g'"
    for M
    using rows by (intro train_batches_on_rows) auto
  have ep: "fit_epoch E M X y (int (nrows X div nat (batch_size N))) g =
              (case train_on_batches E M
                      (map (\<lambda>s. (map (\<lambda>j. X ! (perm ! j)) s, map (\<lambda>j. y ! (perm ! j)) s)) splits)
                      0 g' of
                 Inl e \<Rightarrow> Inl e
               | Inr (M1, batch_t_error, g2) \<Rightarrow>
                   validation_step E
                     (M1\<lparr>errors_training :=
                           errors_training M1 @
                             [batch_t_error / real (nrows X div nat (batch_size N))]\<rparr>) g2)" for M
    by (simp add: fit_epoch_def sh sp tb split: sum.splits prod.splits)
  from f sp rest ep show ?thesis by blast
qed

theorem fit_epoch_batches_partition_witness:
  "0 < batch_size (scenario_net\<lparr>batch_size := 2\<rparr>) \<and>
   batch_size (scenario_net\<lparr>batch_size := 2\<rparr>) \<le> int (nrows five_samples) \<and>
   random_permutation sample_env 0 (nrows five_samples) = (rev [0..<5], 1) \<and>
   mset (rev [0..<5]) = mset [0..<nrows five_samples] \<and>
   nrows five_samples \<le> nrows five_labels \<and>
   array_split [0..<nrows five_samples] 2 = Inr [[0, 1, 2], [3, 4]] \<and>
   (\<exists>splits.
      array_split [0..<nrows five_samples] 2 = Inr splits \<and>
      length splits = 2 \<and>
      concat splits = [0..<nrows five_samples] \<and>
      map length splits = [3, 2] \<and>
      (\<forall>i<nrows five_samples.
         \<exists>!b. b < length splits \<and> i \<in> set (map (\<lambda>j. rev [0..<5] ! j) (splits ! b)))) \<and>
   fit_epoch sample_env scenario_net five_samples five_labels 2 0 =
     (case train_on_batches sample_env scenario_net
             [([[5], [4], [3]], [[1, 0], [0, 1], [1, 0]]), ([[2], [1]], [[0, 1], [1, 0]])] 0 1 of
        Inl e \<Rightarrow> Inl e
      | Inr (M1, batch_t_error, g2) \<Rightarrow>
          validation_step sample_env
            (M1\<lparr>errors_training := errors_training M1 @ [batch_t_error / 2]\<rparr>) g2)"
proof -
  have n: "nrows five_samples = 5" "nrows five_labels = 5"
    by (simp_all add: nrows_def five_samples_def five_labels_def)
  have a: "0 < batch_size (scenario_net\<lparr>batch_size := 2\<rparr>)" by simp
  have b: "batch_size (scenario_net\<lparr>batch_size := 2\<rparr>) \<le> int (nrows five_samples)"
    by (simp add: n)
  have c: "random_permutation sample_env 0 (nrows five_samples) = (rev [0..<5], 1)"
    by (simp add: sample_env_def n)
  have d: "mset (rev [0..<5]) = mset [0..<nrows five_samples]"
    by (simp add: n)
  have e: "nrows five_samples \<le> nrows five_labels" by (simp add: n)
  have k: "nrows five_samples div nat (batch_size (scenario_net\<lparr>batch_size := 2\<rparr>)) = 2"
    by (simp add: n)
  have s: "section_sizes 5 2 = [3, 2]"
    by code_simp
  have f0: "array_split [0..<5] 2 = Inr [[0, 1, 2], [3, 4::nat]]"
    by code_simp
  have f: "array_split [0..<nrows five_samples] 2 = Inr [[0, 1, 2], [3, 4]]"
    by (simp only: n f0)
  have r: "rev [0..<5] = [4, 3, 2, 1, 0::nat]" by code_simp
  from fit_epoch_batches_partition [OF a b c d e, where labels = "[0]" and ?g0.0 = 0,
      unfolded k of_nat_numeral]
  obtain splits where
    sp: "array_split [0..<nrows five_samples] 2 = Inr splits"
      "length splits = 2" "concat splits = [0..<nrows five_samples]"
      "map length splits = section_sizes (nrows five_samples) 2"
      "\<forall>i<nrows five_samples.
         \<exists>!b. b < length splits \<and> i \<in> set (map (\<lambda>j. rev [0..<5] ! j) (splits ! b))"
    and ep: "\<And>M :: unit MultilayerPerceptron.
              fit_epoch sample_env M five_samples five_labels 2 0 =
              (case train_on_batches sample_env M
                      (map (\<lambda>s. (map (\<lambda>j. five_samples ! (rev [0..<5] ! j)) s,
                                   map (\<lambda>j. five_labels ! (rev [0..<5] ! j)) s)) splits)
                      0 1 of
                 Inl e \<Rightarrow> Inl e
               | Inr (M1, batch_t_error, g2) \<Rightarrow>
                   validation_step sample_env
                     (M1\<lparr>errors_training := errors_training M1 @ [batch_t_error / 2]\<rparr>) g2)"
    by blast
  from sp(1) f have splits: "splits = [[0, 1, 2], [3, 4]]" by simp
  have batches:
    "map (\<lambda>s. (map (\<lambda>j. five_samples ! (rev [0..<5] ! j)) s,
                 map (\<lambda>j. five_labels ! (rev [0..<5] ! j)) s)) splits =
       [([[5], [4], [3]], [[1, 0], [0, 1], [1, 0]]), ([[2], [1]], [[0, 1], [1, 0]])]"
    by (simp add: splits r five_samples_def five_labels_def)
  from ep [of scenario_net] have
    "fit_epoch sample_env scenario_net five_samples five_labels 2 0 =
       (case train_on_batches sample_env scenario_net
               [([[5], [4], [3]], [[1, 0], [0, 1], [1, 0]]), ([[2], [1]], [[0, 1], [1, 0]])] 0 1 of
          Inl e \<Rightarrow> Inl e
        | Inr (M1, batch_t_error, g2) \<Rightarrow>
            validation_step sample_env
              (M1\<lparr>errors_training := errors_training M1 @ [batch_t_error / 2]\<rparr>) g2)"
    by (simp add: batches)
  with a b c d e f sp s n show ?thesis by auto
qed

text \<open>
  The claim as stated fails: one sample and a batch size of \<open>-1\<close> satisfy
  \<open>n_samples \<ge> batch_size\<close>, the batch count is \<open>-1\<close>, and the first epoch raises ValueError
  in \<^verbatim>\<open>np.array_split\<close> instead of partitioning the positions.
\<close>

theorem fit_negative_batch_size_forms_no_batch:
  "batch_size (scenario_net\<lparr>batch_size := - 1\<rparr>) \<le> int (nrows [[1, 2::real]]) \<and>
   n_batches_of (nrows [[1, 2::real]]) (batch_size (scenario_net\<lparr>batch_size := - 1\<rparr>)) = Inr (- 1) \<and>
   array_split [0..<nrows [[1, 2::real]]] (- 1) = Inl ValueError \<and>
   fit sample_env (scenario_net\<lparr>batch_size := - 1\<rparr>) [[1, 2]] [0] 0 = Inl ValueError"
  by (simp add: scenario_net_def fit_defs sample_defs nrows_def)

section \<open>Gradient boosting: fitting and predicting\<close>

lemma fit_trees_eq_spec: "fit_trees R lr ts X y y_pred = fit_trees_spec R lr ts X y y_pred"
proof (induction ts arbitrary: y_pred)
  case Nil
  show ?case by simp
next
  case (Cons t ts)
  show ?case
  proof (cases "vec_sub y y_pred")
    case (Inl e)
    then have "vec_sub y_pred y = Inl e"
      by (auto simp: vec_sub_def split: if_splits)
    with Inl show ?thesis by simp
  next
    case (Inr d)
    then have "vec_sub y_pred y = Inr (map uminus d)"
      by (auto simp: vec_sub_def split: if_splits intro!: nth_equalityI)
    with Inr Cons.IH show ?thesis by (simp cong: sum.case_cong)
  qed
qed

lemma predict_after_fit:
  "fit_trees R lr ts X y y_pred = Inr (ts', yp) \<Longrightarrow> predict_trees R lr ts' X y_pred = Inr yp"
proof (induction ts arbitrary: y_pred ts' yp)
  case Nil
  then show ?case by simp
next
  case (Cons t ts)
  from Cons.prems obtain d t' r acc ts'' where
    "tree_predict R t' X = Inr r" "vec_isub y_pred (map (\<lambda>x. lr * x) r) = Inr acc"
    "fit_trees R lr ts X y acc = Inr (ts'', yp)" "ts' = t' # ts''"
    by (auto split: sum.splits)
  with Cons.IH [of acc ts'' yp] show ?case by simp
qed

lemma foldl_predict_step_Inl: "foldl (predict_step R lr X) (Inl e) ts = Inl e"
  by (induction ts) (simp_all add: predict_step_def)

lemma predict_trees_foldl:
  "predict_trees R lr ts X y_pred = foldl (predict_step R lr X) (Inr y_pred) ts"
proof (induction ts arbitrary: y_pred)
  case Nil
  show ?case by simp
next
  case (Cons t ts)
  have step: "predict_step R lr X (Inr a) t =
                (case tree_predict R t X of
                   Inl e \<Rightarrow> Inl e
                 | Inr r \<Rightarrow> vec_isub a (map (\<lambda>x. lr * x) r))" for a
    by (simp add: predict_step_def)
  show ?case
  proof (cases "tree_predict R t X")
    case (Inl e)
    then show ?thesis by (simp add: step foldl_predict_step_Inl)
  next
    case (Inr r)
    then show ?thesis
      by (cases "vec_isub y_pred (map (\<lambda>x. lr * x) r)")
         (simp_all add: step foldl_predict_step_Inl Cons.IH)
  qed
qed

lemma predict_after_fit_regressor:
  assumes "GradientBoostingRegressor_fit R G X y = Inr G'" and "length y = nrows X"
  shows "\<exists>yp. fit_trees R (learning_rate G) (trees G) X y (replicate (length y) 0) =
                 Inr (trees G', yp) \<and>
              GradientBoostingRegressor_predict R G' X = Inr yp"
proof -
  from assms(1) obtain ts yp where
    f: "fit_trees R (learning_rate G) (trees G) X y (replicate (length y) 0) = Inr (ts, yp)"
    and G': "G' = G\<lparr>trees := ts\<rparr>"
    by (auto simp: GradientBoostingRegressor_fit_def split: sum.splits)
  from predict_after_fit [OF f] assms(2) G' f show ?thesis
    by (simp add: GradientBoostingRegressor_predict_def)
qed

text \<open>
  Claim C9.  \<^verbatim>\<open>GradientBoostingRegressor.fit\<close> is the loop the specification describes:
  from the all-zero prediction, for each tree in turn, the residuals are prediction
  minus target, the tree is fitted to them, and \<open>learning_rate\<close> times the tree's
  prediction is subtracted from the running prediction.  \<^verbatim>\<open>predict\<close> is the same
  accumulation from zero without fitting, for every regressor and input; on the inputs
  of a fit it returns the running prediction that fit ended with.  With
  \<open>n_estimators = 0\<close> there is no tree, \<^verbatim>\<open>fit\<close> changes nothing, and \<^verbatim>\<open>predict\<close> is the
  all-zero vector for every input.
\<close>

theorem gradient_boosting_fit_predict:
  "GradientBoostingRegressor_fit R G X y = GradientBoostingRegressor_fit_spec R G X y \<and>
   GradientBoostingRegressor_predict R G X' = GradientBoostingRegressor_predict_spec R G X' \<and>
   (GradientBoostingRegressor_fit R G X y = Inr G' \<and> length y = nrows X \<longrightarrow>
      (\<exists>yp. fit_trees R (learning_rate G) (trees G) X y (replicate (length y) 0) =
               Inr (trees G', yp) \<and>
            GradientBoostingRegressor_predict R G' X = Inr yp)) \<and>
   (fit_trees R lr ts X y y_pred = Inr (ts', yp) \<longrightarrow> predict_trees R lr ts' X y_pred = Inr yp) \<and>
   GradientBoostingRegressor_fit R (GradientBoostingRegressor_init R 0 lr mf ms vr md dbg) X y =
     Inr (GradientBoostingRegressor_init R 0 lr mf ms vr md dbg) \<and>
   GradientBoostingRegressor_predict R (GradientBoostingRegressor_init R 0 lr mf ms vr md dbg) X' =
     Inr (replicate (nrows X') 0)"
proof -
  have "GradientBoostingRegressor_fit R G X y = GradientBoostingRegressor_fit_spec R G X y"
    by (simp add: GradientBoostingRegressor_fit_def GradientBoostingRegressor_fit_spec_def
        fit_trees_eq_spec)
  moreover have
    "GradientBoostingRegressor_predict R G X' = GradientBoostingRegressor_predict_spec R G X'"
    by (simp add: GradientBoostingRegressor_predict_def GradientBoostingRegressor_predict_spec_def
        predict_trees_foldl)
  moreover have
    "GradientBoostingRegressor_fit R (GradientBoostingRegressor_init R 0 lr mf ms vr md dbg) X y =
       Inr (GradientBoostingRegressor_init R 0 lr mf ms vr md dbg)"
    by (simp add: GradientBoostingRegressor_fit_def GradientBoostingRegressor_init_def)
  moreover have
    "GradientBoostingRegressor_predict R (GradientBoostingRegressor_init R 0 lr mf ms vr md dbg) X' =
       Inr (replicate (nrows X') 0)"
    by (simp add: GradientBoostingRegressor_predict_def GradientBoostingRegressor_init_def)
  ultimately show ?thesis
    using predict_after_fit_regressor [of R G X y G'] predict_after_fit [of R lr ts X y y_pred ts' yp]
    by blast
qed

lemma two_trees_fit:
  "GradientBoostingRegressor_fit mean_tree two_trees [[1], [2]] [1, 3] = Inr two_trees_fitted"
  by (simp add: GradientBoostingRegressor_fit_def two_trees_def two_trees_fitted_def
      GradientBoostingRegressor_init_def mean_tree_def vec_sub_def vec_isub_def nrows_def
      numeral_2_eq_2)

theorem gradient_boosting_fit_predict_witness:
  "GradientBoostingRegressor_fit mean_tree two_trees [[1], [2]] [1, 3] = Inr two_trees_fitted \<and>
   length [1, 3::real] = nrows [[1], [2]] \<and>
   trees two_trees_fitted = [- 2, - 1] \<and>
   fit_trees mean_tree (learning_rate two_trees) (trees two_trees) [[1], [2]] [1, 3] [0, 0] =
     Inr ([- 2, - 1], [3/2, 3/2]) \<and>
   predict_trees mean_tree (learning_rate two_trees) [- 2, - 1] [[1], [2]] [0, 0] = Inr [3/2, 3/2] \<and>
   GradientBoostingRegressor_predict mean_tree two_trees_fitted [[1], [2]] = Inr [3/2, 3/2]"
proof -
  have l: "length [1, 3::real] = nrows [[1], [2]]" by (simp add: nrows_def)
  have t: "trees two_trees_fitted = [- 2, - 1]" by (simp add: two_trees_fitted_def)
  have f: "fit_trees mean_tree (learning_rate two_trees) (trees two_trees) [[1], [2]] [1, 3] [0, 0] =
             Inr ([- 2, - 1], [3/2, 3/2])"
    by (simp add: two_trees_def GradientBoostingRegressor_init_def mean_tree_def vec_sub_def
        vec_isub_def nrows_def numeral_2_eq_2)
  from gradient_boosting_fit_predict
    [of mean_tree two_trees "[[1], [2]]" "[1, 3]" _ two_trees_fitted "learning_rate two_trees"
        "trees two_trees" "[0, 0]" "[- 2, - 1]" "[3/2, 3/2]"]
  have "\<exists>yp. fit_trees mean_tree (learning_rate two_trees) (trees two_trees) [[1], [2]] [1, 3]
               (replicate (length [1, 3::real]) 0) = Inr (trees two_trees_fitted, yp) \<and>
             GradientBoostingRegressor_predict mean_tree two_trees_fitted [[1], [2]] = Inr yp"
    and "predict_trees mean_tree (learning_rate two_trees) [- 2, - 1] [[1], [2]] [0, 0] =
           Inr [3/2, 3/2]"
    using two_trees_fit l f by blast+
  with f have "GradientBoostingRegressor_predict mean_tree two_trees_fitted [[1], [2]] = Inr [3/2, 3/2]"
    and "predict_trees mean_tree (learning_rate two_trees) [- 2, - 1] [[1], [2]] [0, 0] =
           Inr [3/2, 3/2]"
    by (auto simp: numeral_2_eq_2)
  with two_trees_fit l t f show ?thesis by blast
qed

end
